theory Spec2Isabelle
  imports Complex_Main "HOL-Library.Sublist" "HOL-Library.Log_Nat"
begin

section \<open>Python strings and exceptions\<close>

text \<open>
  A Python \<^verbatim>\<open>str\<close> is modelled as a \<^typ>\<open>string\<close>: a list of characters with codes
  below 256. On that range \<^verbatim>\<open>str.isspace\<close>, the default \<^verbatim>\<open>str.strip()\<close> and the
  regular-expression class \<^verbatim>\<open>\s\<close> agree on the twelve characters of \<open>is_space\<close>, and the
  class \<^verbatim>\<open>\d\<close> is exactly the ten ASCII digits.

  A raised exception is a value \<open>Exn type message\<close>, where the two fields are what
  \<^verbatim>\<open>type(e).__name__\<close> and \<^verbatim>\<open>str(e)\<close> read; a computation that may raise returns
  \<open>exn + 'a\<close>, with \<open>Inl\<close> for the exception.
\<close>

datatype exn = Exn (exn_type: string) (exn_msg: string)

definition is_space :: "char \<Rightarrow> bool" where
  "is_space c = (c \<in> set [CHR 0x09, CHR 0x0A, CHR 0x0B, CHR 0x0C, CHR 0x0D,
                            CHR 0x1C, CHR 0x1D, CHR 0x1E, CHR 0x1F, CHR 0x20,
                            CHR 0x85, CHR 0xA0])"

definition is_digit :: "char \<Rightarrow> bool" where
  "is_digit c = (c \<in> set ''0123456789'')"

definition is_letter :: "char \<Rightarrow> bool" where
  "is_letter c = (c \<in> set ''ABCDEFGHIJKLMNOPQRSTUVWXYZabcdefghijklmnopqrstuvwxyz'')"

text \<open>\<^verbatim>\<open>s.strip()\<close>: leading and trailing whitespace removed.\<close>

definition py_strip :: "string \<Rightarrow> string" where
  "py_strip s = rev (dropWhile is_space (rev (dropWhile is_space s)))"

text \<open>\<^verbatim>\<open>int(s)\<close> on a string of ASCII digits.\<close>

definition digit_val :: "char \<Rightarrow> int" where
  "digit_val c = int (of_char c) - 48"

definition py_int :: "string \<Rightarrow> int" where
  "py_int s = foldl (\<lambda>acc c. 10 * acc + digit_val c) 0 s"

section \<open>The identifier parser (tools/get\_ticket.py, parse\_ticket\_id)\<close>

text \<open>
  \<^verbatim>\<open>$\<close> without the MULTILINE flag matches at the end of the string and just before a
  final newline.
\<close>

definition at_end :: "string \<Rightarrow> bool" where
  "at_end r = (r = [] \<or> r = [CHR 0x0A])"

text \<open>
  \<^verbatim>\<open>\d{4}$\<close> at the front of \<open>r\<close>: the four digits, when the match succeeds.
\<close>

definition year_at_end :: "string \<Rightarrow> string option" where
  "year_at_end r =
     (if length (take 4 r) = 4 \<and> list_all is_digit (take 4 r) \<and> at_end (drop 4 r)
      then Some (take 4 r) else None)"

text \<open>
  The four anchored patterns, each applied with \<^verbatim>\<open>re.match\<close>; the result is the list
  \<^verbatim>\<open>match.groups()\<close>. In every pattern the character that has to follow a repetition lies
  outside the repeated class, so the greedy repetition takes the whole run and backtracking
  finds no other match.

  \<^verbatim>\<open>^(\d+)/[A-Za-z]*-?(\d{4})$\<close>
\<close>

definition pattern_slash_prefix_year :: "string \<Rightarrow> string list option" where
  "pattern_slash_prefix_year s =
     (let number = takeWhile is_digit s; r1 = dropWhile is_digit s in
      if number = [] then None
      else (case r1 of
              [] \<Rightarrow> None
            | c # r2 \<Rightarrow>
                if c \<noteq> CHR ''/'' then None
                else (let r3 = dropWhile is_letter r2;
                          r4 = (case r3 of [] \<Rightarrow> r3
                                | d # t \<Rightarrow> if d = CHR ''-'' then t else r3)
                      in (case year_at_end r4 of
                            None \<Rightarrow> None
                          | Some y \<Rightarrow> Some [number, y]))))"

text \<open>\<^verbatim>\<open>^(\d+)/(\d{4})$\<close> and \<^verbatim>\<open>^(\d+)-(\d{4})$\<close>, by their separator.\<close>

definition pattern_sep_year :: "char \<Rightarrow> string \<Rightarrow> string list option" where
  "pattern_sep_year sep s =
     (let number = takeWhile is_digit s; r1 = dropWhile is_digit s in
      if number = [] then None
      else (case r1 of
              [] \<Rightarrow> None
            | c # r2 \<Rightarrow>
                if c \<noteq> sep then None
                else (case year_at_end r2 of
                        None \<Rightarrow> None
                      | Some y \<Rightarrow> Some [number, y])))"

text \<open>\<^verbatim>\<open>^(\d+)$\<close>\<close>

definition pattern_number_only :: "string \<Rightarrow> string list option" where
  "pattern_number_only s =
     (let number = takeWhile is_digit s; r1 = dropWhile is_digit s in
      if number \<noteq> [] \<and> at_end r1 then Some [number] else None)"

definition patterns :: "(string \<Rightarrow> string list option) list" where
  "patterns = [pattern_slash_prefix_year, pattern_sep_year (CHR ''/''),
               pattern_sep_year (CHR ''-''), pattern_number_only]"

text \<open>
  The loop over the patterns: the first pattern that matches decides, by the number of its
  groups; \<open>current_year\<close> is \<^verbatim>\<open>datetime.now().year\<close>.
\<close>

fun try_patterns ::
  "int \<Rightarrow> (string \<Rightarrow> string list option) list \<Rightarrow> string \<Rightarrow> (string \<times> int) option" where
  "try_patterns current_year [] s = None"
| "try_patterns current_year (p # ps) s =
     (case p s of
        None \<Rightarrow> try_patterns current_year ps s
      | Some groups \<Rightarrow>
          if length groups = 2 then Some (groups ! 0, py_int (groups ! 1))
          else if length groups = 1 then Some (groups ! 0, current_year)
          else try_patterns current_year ps s)"

text \<open>\<^verbatim>\<open>re.search(r'(\d+)', s)\<close>: the first run of digits, if the string has a digit.\<close>

definition search_digits :: "string \<Rightarrow> string option" where
  "search_digits s =
     (let r = dropWhile (\<lambda>c. \<not> is_digit c) s in
      if r = [] then None else Some (takeWhile is_digit r))"

definition parse_ticket_id :: "int \<Rightarrow> string \<Rightarrow> exn + (string \<times> int)" where
  "parse_ticket_id current_year ticket_id0 =
     (let ticket_id = py_strip ticket_id0 in
      case try_patterns current_year patterns ticket_id of
        Some r \<Rightarrow> Inr r
      | None \<Rightarrow>
          (case search_digits ticket_id of
             Some number \<Rightarrow> Inr (number, current_year)
           | None \<Rightarrow>
               Inl (Exn ''ValueError'' (''Formato ticket ID non riconosciuto: '' @ ticket_id))))"

section \<open>Python values and JSON serialisation\<close>

text \<open>
  The values that cross the tool boundary. A finite \<^verbatim>\<open>float\<close> is the rational number that
  the double denotes, and an operation on floats rounds its exact result to the nearest
  double (\<open>to_double\<close> below); \<^verbatim>\<open>Decimal\<close> and \<^verbatim>\<open>datetime\<close> are the two
  kinds of value the relational driver returns that \<^verbatim>\<open>json.dumps\<close> refuses. A
  \<^verbatim>\<open>datetime\<close> is represented by the text its \<^verbatim>\<open>isoformat()\<close> returns. A \<^verbatim>\<open>dict\<close> with
  string keys is an association list in insertion order, read with \<open>map_of\<close>.
\<close>

datatype pyval =
    PNone
  | PBool bool
  | PInt int
  | PFloat rat
  | PStr string
  | PDecimal rat
  | PDateTime string
  | PList "pyval list"
  | PDict "(string \<times> pyval) list"

text \<open>
  \<^verbatim>\<open>json.dumps\<close>: the type name of the first object the encoder cannot serialise, if any.
\<close>

fun first_unserialisable :: "pyval \<Rightarrow> string option"
  and first_unserialisable_list :: "pyval list \<Rightarrow> string option"
  and first_unserialisable_items :: "(string \<times> pyval) list \<Rightarrow> string option" where
  "first_unserialisable (PDecimal d) = Some ''Decimal''"
| "first_unserialisable (PDateTime t) = Some ''datetime''"
| "first_unserialisable (PList xs) = first_unserialisable_list xs"
| "first_unserialisable (PDict kvs) = first_unserialisable_items kvs"
| "first_unserialisable PNone = None"
| "first_unserialisable (PBool b) = None"
| "first_unserialisable (PInt i) = None"
| "first_unserialisable (PFloat f) = None"
| "first_unserialisable (PStr s) = None"
| "first_unserialisable_list [] = None"
| "first_unserialisable_list (x # xs) =
     (case first_unserialisable x of Some t \<Rightarrow> Some t | None \<Rightarrow> first_unserialisable_list xs)"
| "first_unserialisable_items [] = None"
| "first_unserialisable_items (kv # kvs) =
     (case first_unserialisable (snd kv) of
        Some t \<Rightarrow> Some t
      | None \<Rightarrow> first_unserialisable_items kvs)"

text \<open>
  The text \<^verbatim>\<open>json.dumps\<close> returns is identified with the value it renders: \<open>JsonText v\<close>
  is the JSON text of \<open>v\<close>.
\<close>

datatype payload = JsonText pyval

definition json_dumps :: "pyval \<Rightarrow> exn + payload" where
  "json_dumps v =
     (case first_unserialisable v of
        None \<Rightarrow> Inr (JsonText v)
      | Some t \<Rightarrow>
          Inl (Exn ''TypeError'' (''Object of type '' @ t @ '' is not JSON serializable'')))"

text \<open>\<^verbatim>\<open>d.get(key, dflt)\<close>\<close>

definition dict_get :: "(string \<times> 'v) list \<Rightarrow> string \<Rightarrow> 'v \<Rightarrow> 'v" where
  "dict_get d key dflt = (case map_of d key of Some v \<Rightarrow> v | None \<Rightarrow> dflt)"

text \<open>\<^verbatim>\<open>xs[0]\<close>, which raises on an empty list.\<close>

definition first_item :: "'a list \<Rightarrow> exn + 'a" where
  "first_item xs =
     (case xs of [] \<Rightarrow> Inl (Exn ''IndexError'' ''list index out of range'') | x # _ \<Rightarrow> Inr x)"

text \<open>The nearest integer, a tie going to the even one.\<close>

definition round_half_even :: "rat \<Rightarrow> int" where
  "round_half_even x =
     (let f = \<lfloor>x\<rfloor>; r = x - of_int f
      in if r < 1 / 2 then f else if 1 / 2 < r then f + 1 else if even f then f else f + 1)"

text \<open>
  Double precision (IEEE 754 binary64, round to nearest, ties to even). \<open>floor_log2 x\<close> is
  the exponent \<open>e\<close> with \<open>2^e \<le> x < 2^(e+1)\<close> of a positive \<open>x\<close>, found from the bit lengths of
  numerator and denominator. \<open>to_double x\<close> is the double nearest to \<open>x\<close>: a multiple of
  \<open>2^(e-52)\<close>, where the exponent does not go below that of the subnormal numbers. (Overflow
  to infinity is not modelled.)
\<close>

definition pow2 :: "int \<Rightarrow> rat" where
  "pow2 k = (if 0 \<le> k then 2 ^ nat k else 1 / 2 ^ nat (- k))"

definition floor_log2 :: "rat \<Rightarrow> int" where
  "floor_log2 x =
     (let e = bitlen (fst (quotient_of x)) - bitlen (snd (quotient_of x))
      in if pow2 e \<le> x then e else e - 1)"

definition to_double :: "rat \<Rightarrow> rat" where
  "to_double x =
     (if x = 0 then 0
      else (let e = max (floor_log2 \<bar>x\<bar>) (- 1022);
                ulp = pow2 (e - 52)
            in sgn x * of_int (round_half_even (\<bar>x\<bar> / ulp)) * ulp))"

text \<open>
  \<^verbatim>\<open>round(x, 3)\<close> on a float: the exact value of \<open>x\<close> is rounded to the nearest multiple
  of one thousandth, a tie going to the even one, and the result is the double nearest to
  that decimal number.
\<close>

definition py_round3 :: "rat \<Rightarrow> rat" where
  "py_round3 x = to_double (of_int (round_half_even (x * 1000)) / 1000)"

section \<open>Semantic search (tools/search.py)\<close>

text \<open>
  The vector store is an external collaborator. \<open>get_collection\<close> either raises or returns a
  collection, which is its \<^verbatim>\<open>query\<close> method: from the query texts and \<^verbatim>\<open>n_results\<close> to
  an exception or a result, whose four fields hold one list per query text. A metadata
  value of the store is a string, a number, a boolean or \<^verbatim>\<open>None\<close>.
\<close>

datatype scalar = SNone | SBool bool | SInt int | SFloat rat | SStr string

fun scalar_val :: "scalar \<Rightarrow> pyval" where
  "scalar_val SNone = PNone"
| "scalar_val (SBool b) = PBool b"
| "scalar_val (SInt i) = PInt i"
| "scalar_val (SFloat f) = PFloat f"
| "scalar_val (SStr s) = PStr s"

type_synonym metadata = "(string \<times> scalar) list"

record query_result =
  ids :: "string list list"
  distances :: "rat list list"
  metadatas :: "metadata list list"
  documents :: "string list list"

type_synonym collection = "string list \<Rightarrow> int \<Rightarrow> exn + query_result"

text \<open>The accesses to the store a call makes, in order.\<close>

datatype store_event = GetCollection | Query "string list" int

text \<open>The body of the loop over the zipped results; \<open>i\<close> is the index of \<^verbatim>\<open>enumerate\<close>.\<close>

definition format_result :: "nat \<Rightarrow> string \<times> rat \<times> metadata \<times> string \<Rightarrow> (string \<times> pyval) list" where
  "format_result i r =
     (case r of (ticket_id, distance, metadata, document) \<Rightarrow>
        (let similarity = to_double (1 - distance);
             title = dict_get metadata ''metadata_title'' (dict_get metadata ''title'' (SStr ''N/A''));
             company = dict_get metadata ''metadata_company''
                         (dict_get metadata ''company'' (SStr ''N/A''));
             date = dict_get metadata ''metadata_date'' (dict_get metadata ''date'' (SStr ''N/A''));
             original_id = dict_get metadata ''metadata_original_id''
                             (dict_get metadata ''original_id'' (SStr ''N/A''));
             document_preview =
               (if length document > 300 then take 300 document @ ''...'' else document)
         in [(''rank'', PInt (int i + 1)),
             (''ticket_id'', PStr ticket_id),
             (''similarity_score'', PFloat (py_round3 similarity)),
             (''title'', scalar_val title),
             (''company'', scalar_val company),
             (''date'', scalar_val date),
             (''original_id'', scalar_val original_id),
             (''content_preview'', PStr document_preview),
             (''metadata'', PDict (map (\<lambda>kv. (fst kv, scalar_val (snd kv))) metadata))]))"

text \<open>Lines 43 to 98: from the store's result to the response.\<close>

definition format_response :: "string \<Rightarrow> query_result \<Rightarrow> exn + payload" where
  "format_response query_text results =
     (if ids results = [] \<or> hd (ids results) = [] then
        json_dumps (PDict [(''status'', PStr ''success''),
                           (''query'', PStr query_text),
                           (''results_count'', PInt 0),
                           (''results'', PList []),
                           (''message'', PStr ''Nessun ticket trovato per la query specificata'')])
      else
        (case first_item (distances results) of Inl e \<Rightarrow> Inl e | Inr distances0 \<Rightarrow>
        (case first_item (metadatas results) of Inl e \<Rightarrow> Inl e | Inr metadatas0 \<Rightarrow>
        (case first_item (documents results) of Inl e \<Rightarrow> Inl e | Inr documents0 \<Rightarrow>
           (let rows = zip (hd (ids results)) (zip distances0 (zip metadatas0 documents0));
                formatted_results = map (\<lambda>(i, r). PDict (format_result i r)) (enumerate 0 rows)
            in json_dumps (PDict [(''status'', PStr ''success''),
                                  (''query'', PStr query_text),
                                  (''results_count'', PInt (int (length formatted_results))),
                                  (''results'', PList formatted_results)]))))))"

definition empty_query_msg :: string where
  "empty_query_msg = ''Il testo di ricerca non pu'' @ [CHR 0xF2] @ '' essere vuoto''"

definition n_results_msg :: string where
  "n_results_msg = ''Il numero di risultati deve essere tra 1 e 20''"

text \<open>The body of the \<^verbatim>\<open>try\<close> block, with the store accesses it makes.\<close>

definition search_body ::
  "(exn + collection) \<Rightarrow> string \<Rightarrow> int \<Rightarrow> (exn + payload) \<times> store_event list" where
  "search_body get_collection query_text n_results =
     (if query_text = [] \<or> py_strip query_text = [] then
        (Inl (Exn ''ValueError'' empty_query_msg), [])
      else if n_results < 1 \<or> n_results > 20 then
        (Inl (Exn ''ValueError'' n_results_msg), [])
      else
        (case get_collection of
           Inl e \<Rightarrow> (Inl e, [GetCollection])
         | Inr collection \<Rightarrow>
             (case collection [py_strip query_text] n_results of
                Inl e \<Rightarrow> (Inl e, [GetCollection, Query [py_strip query_text] n_results])
              | Inr results \<Rightarrow>
                  (format_response query_text results,
                   [GetCollection, Query [py_strip query_text] n_results]))))"

text \<open>
  The whole function: what the \<^verbatim>\<open>try\<close> block returns, or the error response that the
  \<^verbatim>\<open>except Exception\<close> handler builds from the exception.
\<close>

definition search_similar_tickets ::
  "(exn + collection) \<Rightarrow> string \<Rightarrow> int \<Rightarrow> (exn + payload) \<times> store_event list" where
  "search_similar_tickets get_collection query_text n_results =
     (case search_body get_collection query_text n_results of
        (Inr response, events) \<Rightarrow> (Inr response, events)
      | (Inl e, events) \<Rightarrow>
          (json_dumps (PDict [(''status'', PStr ''error''),
                              (''query'', PStr query_text),
                              (''error'', PStr (exn_msg e)),
                              (''error_type'', PStr (exn_type e))]),
           events))"

text \<open>A store that answers every query with the same three documents.\<close>

definition example_result :: query_result where
  "example_result =
     \<lparr>ids = [[''3906/SPC-2024'', ''12/SPC-2023'', ''7/SPC-2024'']],
      distances = [[0, 1 / 4, 1]],
      metadatas = [[[(''title'', SStr ''Stampa fattura''), (''metadata_title'', SStr ''Fattura'')],
                    [],
                    [(''company'', SStr ''ACME'')]]],
      documents = [[''errore in stampa'', ''listino prezzi'', ''referenza pari a 0'']]\<rparr>"

definition example_collection :: collection where
  "example_collection query_texts n_results = Inr example_result"

section \<open>HTML documents (BeautifulSoup)\<close>

text \<open>
  The tree that \<^verbatim>\<open>BeautifulSoup(markup, 'html.parser')\<close> builds. \<open>Text\<close> is a string
  that \<^verbatim>\<open>get_text\<close> yields, \<open>Hidden\<close> one that it skips (a comment, a declaration),
  \<open>Element name classes children\<close> a tag with the value of its \<^verbatim>\<open>class\<close> attribute.
  A soup is the list of the top-level nodes. The parser itself is an external collaborator:
  a parameter that, given the markup, raises or returns a soup.
\<close>

datatype node = Text string | Hidden string | Element string "string list" "node list"

type_synonym soup = "node list"

type_synonym html_parser = "pyval \<Rightarrow> exn + soup"

text \<open>The strings below a node, in document order.\<close>

fun strings :: "node \<Rightarrow> string list" where
  "strings (Text s) = [s]"
| "strings (Hidden s) = []"
| "strings (Element name classes children) = concat (map strings children)"

text \<open>\<^verbatim>\<open>node.get_text()\<close>\<close>

definition get_text :: "node \<Rightarrow> string" where
  "get_text n = concat (strings n)"

text \<open>
  \<^verbatim>\<open>node.get_text(strip=True)\<close>: every string stripped, the empty ones dropped, the rest
  joined with nothing between them.
\<close>

definition get_text_strip :: "node \<Rightarrow> string" where
  "get_text_strip n = concat (filter (\<lambda>s. s \<noteq> []) (map py_strip (strings n)))"

text \<open>\<^verbatim>\<open>soup.get_text()\<close>\<close>

definition soup_text :: "soup \<Rightarrow> string" where
  "soup_text soup = concat (map get_text soup)"

definition is_named :: "string list \<Rightarrow> node \<Rightarrow> bool" where
  "is_named names n = (case n of Element name classes children \<Rightarrow> name \<in> set names | _ \<Rightarrow> False)"

text \<open>
  \<^verbatim>\<open>node.find_all(names)\<close>: the tags below the node with one of the names, in document
  order.
\<close>

fun find_all :: "string list \<Rightarrow> node \<Rightarrow> node list" where
  "find_all names (Element name classes children) =
     concat (map (\<lambda>c. (if is_named names c then [c] else []) @ find_all names c) children)"
| "find_all names (Text s) = []"
| "find_all names (Hidden s) = []"

text \<open>
  A loop \<^verbatim>\<open>for x in soup.find_all(names): ... x.replace_with(text)\<close>, where \<open>f x\<close> is the
  text that the body replaces \<open>x\<close> with, or \<open>None\<close> when the body leaves \<open>x\<close> in place.
  \<^verbatim>\<open>find_all\<close> lists a tag before the tags inside it; once a tag is replaced, what the
  loop later does to the tags inside it happens in a detached subtree and does not reach
  the soup.
\<close>

fun replace_each :: "string list \<Rightarrow> (node \<Rightarrow> string option) \<Rightarrow> node \<Rightarrow> node" where
  "replace_each names f (Element name classes children) =
     (if name \<in> set names then
        (case f (Element name classes children) of
           Some t \<Rightarrow> Text t
         | None \<Rightarrow> Element name classes (map (replace_each names f) children))
      else Element name classes (map (replace_each names f) children))"
| "replace_each names f (Text s) = Text s"
| "replace_each names f (Hidden s) = Hidden s"

text \<open>\<^verbatim>\<open>sep.join(xs)\<close>\<close>

fun join :: "string \<Rightarrow> string list \<Rightarrow> string" where
  "join sep [] = []"
| "join sep [x] = x"
| "join sep (x # y # ys) = x @ sep @ join sep (y # ys)"

section \<open>Regular-expression substitutions written out\<close>

text \<open>\<^verbatim>\<open>re.sub(r'\s+', ' ', text)\<close>: every run of whitespace becomes one space.\<close>

function collapse_ws :: "string \<Rightarrow> string" where
  "collapse_ws [] = []"
| "collapse_ws (c # cs) =
     (if is_space c then CHR '' '' # collapse_ws (dropWhile is_space cs)
      else c # collapse_ws cs)"
  by pat_completeness auto
termination
  by (relation "measure length") (auto simp: le_imp_less_Suc length_dropWhile_le)

text \<open>
  \<^verbatim>\<open>re.sub(r'\n\s*\n', '\n\n', text)\<close>: a newline, and the whitespace after it up to the
  last newline of that run of whitespace, become two newlines.
\<close>

definition after_last_newline :: "string \<Rightarrow> string" where
  "after_last_newline run = rev (takeWhile (\<lambda>x. x \<noteq> CHR 0x0A) (rev run))"

function squeeze_blank_lines :: "string \<Rightarrow> string" where
  "squeeze_blank_lines [] = []"
| "squeeze_blank_lines (c # cs) =
     (if c = CHR 0x0A \<and> CHR 0x0A \<in> set (takeWhile is_space cs)
      then [CHR 0x0A, CHR 0x0A] @
           squeeze_blank_lines (after_last_newline (takeWhile is_space cs) @ dropWhile is_space cs)
      else c # squeeze_blank_lines cs)"
  by pat_completeness auto
termination
proof (relation "measure length")
  fix c :: char and cs :: string
  have "length (after_last_newline (takeWhile is_space cs)) \<le> length (takeWhile is_space cs)"
    unfolding after_last_newline_def length_rev
    using length_takeWhile_le[of _ "rev (takeWhile is_space cs)"] by simp
  moreover have "length (takeWhile is_space cs) + length (dropWhile is_space cs) = length cs"
    by (metis length_append takeWhile_dropWhile_id)
  ultimately show
    "(after_last_newline (takeWhile is_space cs) @ dropWhile is_space cs, c # cs) \<in> measure length"
    by simp
qed simp_all

text \<open>
  \<^verbatim>\<open>re.sub(r'<[^>]+>', '', text)\<close>: a \<open><\<close>, at least one character other than \<open>>\<close>,
  and the next \<open>>\<close> are removed.
\<close>

function strip_tags :: "string \<Rightarrow> string" where
  "strip_tags [] = []"
| "strip_tags (c # cs) =
     (if c = CHR ''<'' \<and> takeWhile (\<lambda>x. x \<noteq> CHR ''>'') cs \<noteq> []
         \<and> dropWhile (\<lambda>x. x \<noteq> CHR ''>'') cs \<noteq> []
      then strip_tags (tl (dropWhile (\<lambda>x. x \<noteq> CHR ''>'') cs))
      else c # strip_tags cs)"
  by pat_completeness auto
termination
proof (relation "measure length")
  fix c :: char and cs :: string
  have "length (tl (dropWhile (\<lambda>x. x \<noteq> CHR ''>'') cs)) \<le> length cs"
    using length_dropWhile_le[of "\<lambda>x. x \<noteq> CHR ''>''" cs] by simp
  then show "(tl (dropWhile (\<lambda>x. x \<noteq> CHR ''>'') cs), c # cs) \<in> measure length"
    by simp
qed simp_all

text \<open>
  \<^verbatim>\<open>s.replace(old, new)\<close>, for a non-empty \<open>old\<close> (as every call in the program has).
\<close>

function replace_all :: "string \<Rightarrow> string \<Rightarrow> string \<Rightarrow> string" where
  "replace_all old new [] = []"
| "replace_all old new (c # cs) =
     (if old \<noteq> [] \<and> prefix old (c # cs)
      then new @ replace_all old new (drop (length old) (c # cs))
      else c # replace_all old new cs)"
  by pat_completeness auto
termination
  by (relation "measure (\<lambda>(old, new, s). length s)") auto

text \<open>
  The other substitutions are calls to the regular-expression library with the pattern of
  the source: \<open>re_sub flags pattern repl text\<close> is \<^verbatim>\<open>re.sub(pattern, repl, text, flags)\<close>,
  a parameter of the model.
\<close>

datatype re_flag = MULTILINE

type_synonym re_sub = "re_flag list \<Rightarrow> string \<Rightarrow> string \<Rightarrow> string \<Rightarrow> string"

definition backslash :: string where
  "backslash = [CHR 0x5C]"

definition newline :: string where
  "newline = [CHR 0x0A]"

section \<open>Truth values and type names of Python values\<close>

fun truthy :: "pyval \<Rightarrow> bool" where
  "truthy PNone = False"
| "truthy (PBool b) = b"
| "truthy (PInt i) = (i \<noteq> 0)"
| "truthy (PFloat f) = (f \<noteq> 0)"
| "truthy (PStr s) = (s \<noteq> [])"
| "truthy (PDecimal d) = (d \<noteq> 0)"
| "truthy (PDateTime t) = True"
| "truthy (PList xs) = (xs \<noteq> [])"
| "truthy (PDict kvs) = (kvs \<noteq> [])"

fun type_name :: "pyval \<Rightarrow> string" where
  "type_name PNone = ''NoneType''"
| "type_name (PBool b) = ''bool''"
| "type_name (PInt i) = ''int''"
| "type_name (PFloat f) = ''float''"
| "type_name (PStr s) = ''str''"
| "type_name (PDecimal d) = ''decimal.Decimal''"
| "type_name (PDateTime t) = ''datetime.datetime''"
| "type_name (PList xs) = ''list''"
| "type_name (PDict kvs) = ''dict''"

text \<open>The exception of a call \<^verbatim>\<open>v.attr\<close> on a value that has no such attribute.\<close>

definition no_attribute :: "pyval \<Rightarrow> string \<Rightarrow> exn" where
  "no_attribute v attr =
     Exn ''AttributeError''
       ([CHR 0x27] @ type_name v @ [CHR 0x27] @ '' object has no attribute '' @
        [CHR 0x27] @ attr @ [CHR 0x27])"

section \<open>The lenient HTML normalizer (PY\_Scripts/clean\_html.py)\<close>

text \<open>The texts of the list items, the empty ones skipped.\<close>

definition list_items :: "node \<Rightarrow> string list" where
  "list_items ul = filter (\<lambda>t. t \<noteq> []) (map get_text_strip (find_all [''li''] ul))"

definition list_text_lenient :: "node \<Rightarrow> string option" where
  "list_text_lenient ul =
     (let items = list_items ul
      in if items \<noteq> [] then Some (''I punti sono: '' @ join '', '' items @ ''.'') else None)"

text \<open>
  The body of the loop over the rows of a table: what the row appends to
  \<^verbatim>\<open>table_text\<close>, if anything.
\<close>

definition row_text_lenient :: "node \<Rightarrow> string option" where
  "row_text_lenient row =
     (let cells = find_all [''td'', ''th''] row
      in if length cells \<ge> 2 then
           (let cell_texts = filter (\<lambda>t. t \<noteq> []) (map get_text_strip cells)
            in if cell_texts \<noteq> [] then Some (join '': '' cell_texts) else None)
         else None)"

definition table_text_lenient :: "node \<Rightarrow> string option" where
  "table_text_lenient table =
     (let table_text = List.map_filter row_text_lenient (find_all [''tr''] table)
      in if table_text \<noteq> [] then Some (join ''. '' table_text @ ''.'') else None)"

text \<open>Lines 22 to 57: from the parsed soup to the text.\<close>

definition soup_to_text_lenient :: "soup \<Rightarrow> string" where
  "soup_to_text_lenient soup =
     (let soup1 = map (replace_each [''ul'', ''ol''] list_text_lenient) soup;
          soup2 = map (replace_each [''table''] table_text_lenient) soup1;
          text = soup_text soup2;
          text = collapse_ws text;
          text = squeeze_blank_lines text
      in py_strip text)"

text \<open>
  The function has no \<^verbatim>\<open>try\<close>: an exception of the parser leaves the function.
\<close>

definition clean_html_content_lenient :: "html_parser \<Rightarrow> pyval \<Rightarrow> exn + string" where
  "clean_html_content_lenient parse html_content =
     (if \<not> truthy html_content then Inr []
      else (case parse html_content of
              Inl e \<Rightarrow> Inl e
            | Inr soup \<Rightarrow> Inr (soup_to_text_lenient soup)))"

text \<open>A parser that answers with a given soup, for evaluating examples.\<close>

definition parsed_as :: "soup \<Rightarrow> html_parser" where
  "parsed_as soup markup = Inr soup"

text \<open>
  A parser that rejects the markup, as \<^verbatim>\<open>html.parser\<close> rejects a marked section with an
  unknown keyword such as \<^verbatim>\<open><![x y]>\<close>.
\<close>

definition rejected_markup_msg :: string where
  "rejected_markup_msg =
     ''The markup you provided was rejected by the parser. '' @
     ''Trying a different parser or a different encoding may help.''"

definition rejecting_parser :: html_parser where
  "rejecting_parser markup = Inl (Exn ''ParserRejectedMarkup'' rejected_markup_msg)"

definition td :: "string \<Rightarrow> node" where
  "td s = Element ''td'' [] (if s = [] then [] else [Text s])"

definition tr :: "string list \<Rightarrow> node" where
  "tr cells = Element ''tr'' [] (map td cells)"

definition table_of :: "string list list \<Rightarrow> node" where
  "table_of rows = Element ''table'' [] (map tr rows)"

section \<open>The display HTML normalizer (tools/ticket\_cleaner.py)\<close>

text \<open>
  The bullet of the list items is the character U+2022, which lies outside the characters
  of \<^typ>\<open>string\<close>; it is the parameter \<open>bullet\<close>.
\<close>

definition list_text_display :: "string \<Rightarrow> node \<Rightarrow> string option" where
  "list_text_display bullet ul =
     (let items = map (\<lambda>item_text. bullet @ '' '' @ item_text)
                    (filter (\<lambda>t. t \<noteq> []) (map get_text_strip (find_all [''li''] ul)))
      in if items \<noteq> [] then Some (newline @ join newline items @ newline) else None)"

definition row_text_display :: "node \<Rightarrow> string option" where
  "row_text_display row =
     (let cells = find_all [''td'', ''th''] row
      in if length cells \<ge> 2 then
           (let cell_texts = filter (\<lambda>t. t \<noteq> []) (map get_text_strip cells)
            in if length cell_texts \<ge> 2
               then Some (hd cell_texts @ '': '' @ join '' | '' (tl cell_texts))
               else None)
         else None)"

definition table_text_display :: "node \<Rightarrow> string option" where
  "table_text_display table =
     (let table_text = List.map_filter row_text_display (find_all [''tr''] table)
      in if table_text \<noteq> [] then Some (newline @ join newline table_text @ newline) else None)"

text \<open>
  \<^verbatim>\<open>str(classes)\<close> for the list of the class names of a tag (none of which needs an
  escape to be printed).
\<close>

definition str_of_classes :: "string list \<Rightarrow> string" where
  "str_of_classes classes =
     ''['' @ join '', '' (map (\<lambda>c. [CHR 0x27] @ c @ [CHR 0x27]) classes) @ '']''"

definition quote_text :: "node \<Rightarrow> string option" where
  "quote_text blockquote =
     (case blockquote of
        Element name classes children \<Rightarrow>
          if classes \<noteq> [] \<and> sublist ''quote'' (str_of_classes classes) then
            (let quote_text = get_text_strip blockquote
             in if quote_text \<noteq> [] then Some (newline @ ''> '' @ quote_text @ newline)
                else None)
          else None
      | _ \<Rightarrow> None)"

definition paragraph_text :: "node \<Rightarrow> string option" where
  "paragraph_text p = Some (get_text p @ newline @ newline)"

definition br_text :: "node \<Rightarrow> string option" where
  "br_text br = Some newline"

text \<open>Lines 16 to 79: from the parsed soup to the text.\<close>

definition soup_to_text_display :: "re_sub \<Rightarrow> string \<Rightarrow> soup \<Rightarrow> string" where
  "soup_to_text_display re_sub bullet soup =
     (let soup1 = map (replace_each [''ul'', ''ol''] (list_text_display bullet)) soup;
          soup2 = map (replace_each [''table''] table_text_display) soup1;
          soup3 = map (replace_each [''blockquote'', ''div''] quote_text) soup2;
          soup4 = map (replace_each [''p''] paragraph_text) soup3;
          soup5 = map (replace_each [''br''] br_text) soup4;
          text = soup_text soup5;
          text = re_sub [] (''[ '' @ backslash @ ''t]+'') '' '' text;
          text = re_sub [] (backslash @ ''n{3,}'') (newline @ newline) text;
          text = re_sub [MULTILINE] (''^'' @ backslash @ ''s+|'' @ backslash @ ''s+$'') [] text;
          text = replace_all ''&nbsp;'' '' '' text;
          text = replace_all ''&lt;'' ''<'' text;
          text = replace_all ''&gt;'' ''>'' text;
          text = replace_all ''&amp;'' ''&'' text;
          text = replace_all ''&quot;'' [CHR 0x22] text;
          text = re_sub [] ''<o:p[^>]*>'' [] text;
          text = re_sub [] ''</o:p>'' [] text;
          text = re_sub [] ''mso-[^;]+;?'' [] text
      in py_strip text)"

text \<open>
  The test before the \<^verbatim>\<open>try\<close> calls \<^verbatim>\<open>strip\<close> on the argument, which only a string
  has. Inside the \<^verbatim>\<open>try\<close> every exception is caught and answered with the fallback.
\<close>

definition clean_html_content_display ::
  "html_parser \<Rightarrow> re_sub \<Rightarrow> string \<Rightarrow> pyval \<Rightarrow> exn + string" where
  "clean_html_content_display parse re_sub bullet html_content =
     (if \<not> truthy html_content then Inr []
      else (case html_content of
              PStr html \<Rightarrow>
                if py_strip html = [] then Inr []
                else (case parse html_content of
                        Inr soup \<Rightarrow> Inr (soup_to_text_display re_sub bullet soup)
                      | Inl e \<Rightarrow> Inr (py_strip (collapse_ws (strip_tags html))))
            | _ \<Rightarrow> Inl (no_attribute html_content ''strip'')))"

section \<open>Formatting the rows of a ticket (tools/ticket\_cleaner.py, format\_ticket\_data)\<close>

text \<open>
  A row is a \<^verbatim>\<open>dict\<close>, an object that can be updated in place: the heap is the list of
  the dictionaries allocated so far and a reference is an index into it.
\<close>

type_synonym entry = "(string \<times> pyval) list"

type_synonym heap = "entry list"

type_synonym ref = nat

text \<open>\<^verbatim>\<open>d[key] = v\<close>: the value of an existing key is replaced, a new key is appended.\<close>

fun dict_set :: "entry \<Rightarrow> string \<Rightarrow> pyval \<Rightarrow> entry" where
  "dict_set [] key v = [(key, v)]"
| "dict_set ((k, x) # kvs) key v =
     (if k = key then (k, v) # kvs else (k, x) # dict_set kvs key v)"

text \<open>
  The loop: \<open>formatted_data\<close> is the list of references built so far. The copy is a new
  object at the end of the heap; the assignment to \<^verbatim>\<open>dt_testo\<close> writes into the copy.
\<close>

fun format_ticket_data_loop ::
  "html_parser \<Rightarrow> re_sub \<Rightarrow> string \<Rightarrow> heap \<Rightarrow> ref list \<Rightarrow> ref list \<Rightarrow> exn + (heap \<times> ref list)" where
  "format_ticket_data_loop parse re_sub bullet h [] formatted_data = Inr (h, formatted_data)"
| "format_ticket_data_loop parse re_sub bullet h (entry # rest) formatted_data =
     (let formatted_entry = length h;
          h1 = h @ [h ! entry]
      in (case map_of (h1 ! formatted_entry) ''dt_testo'' of
            None \<Rightarrow>
              format_ticket_data_loop parse re_sub bullet h1 rest (formatted_data @ [formatted_entry])
          | Some v \<Rightarrow>
              if truthy v then
                (case clean_html_content_display parse re_sub bullet v of
                   Inl e \<Rightarrow> Inl e
                 | Inr text \<Rightarrow>
                     format_ticket_data_loop parse re_sub bullet
                       (h1[formatted_entry := dict_set (h1 ! formatted_entry) ''dt_testo'' (PStr text)])
                       rest (formatted_data @ [formatted_entry]))
              else
                format_ticket_data_loop parse re_sub bullet h1 rest
                  (formatted_data @ [formatted_entry])))"

definition format_ticket_data ::
  "html_parser \<Rightarrow> re_sub \<Rightarrow> string \<Rightarrow> heap \<Rightarrow> ref list \<Rightarrow> exn + (heap \<times> ref list)" where
  "format_ticket_data parse re_sub bullet h ticket_data =
     format_ticket_data_loop parse re_sub bullet h ticket_data []"

text \<open>
  The same call on a list of dictionaries that nothing else refers to: the dictionaries are
  the heap, and the result is read back from the references returned.
\<close>

definition format_ticket_entries ::
  "html_parser \<Rightarrow> re_sub \<Rightarrow> string \<Rightarrow> entry list \<Rightarrow> exn + entry list" where
  "format_ticket_entries parse re_sub bullet entries =
     (case format_ticket_data parse re_sub bullet entries [0..<length entries] of
        Inl e \<Rightarrow> Inl e
      | Inr (h, formatted_data) \<Rightarrow> Inr (map (\<lambda>r. h ! r) formatted_data))"


text \<open>A regular-expression library that substitutes nothing, for evaluating examples.\<close>

definition example_re_sub :: re_sub where
  "example_re_sub flags pattern repl text = text"

section \<open>Direct lookup (tools/get\_ticket.py)\<close>

text \<open>\<^verbatim>\<open>str(n)\<close> for an integer.\<close>

definition digit_char :: "nat \<Rightarrow> char" where
  "digit_char n = ''0123456789'' ! n"

function str_nat :: "nat \<Rightarrow> string" where
  "str_nat n = (if n < 10 then [digit_char n] else str_nat (n div 10) @ [digit_char (n mod 10)])"
  by pat_completeness auto
termination
  by (relation "measure id") auto

definition str_int :: "int \<Rightarrow> string" where
  "str_int i = (if i < 0 then ''-'' @ str_nat (nat (- i)) else str_nat (nat i))"

fun convert_decimals :: "pyval \<Rightarrow> pyval"
  and convert_decimals_list :: "pyval list \<Rightarrow> pyval list"
  and convert_decimals_items :: "(string \<times> pyval) list \<Rightarrow> (string \<times> pyval) list" where
  "convert_decimals (PDecimal d) = PFloat (to_double d)"
| "convert_decimals (PDict kvs) = PDict (convert_decimals_items kvs)"
| "convert_decimals (PList xs) = PList (convert_decimals_list xs)"
| "convert_decimals PNone = PNone"
| "convert_decimals (PBool b) = PBool b"
| "convert_decimals (PInt i) = PInt i"
| "convert_decimals (PFloat f) = PFloat f"
| "convert_decimals (PStr s) = PStr s"
| "convert_decimals (PDateTime t) = PDateTime t"
| "convert_decimals_list [] = []"
| "convert_decimals_list (x # xs) = convert_decimals x # convert_decimals_list xs"
| "convert_decimals_items [] = []"
| "convert_decimals_items (kv # kvs) =
     (fst kv, convert_decimals (snd kv)) # convert_decimals_items kvs"

text \<open>
  The relational store is an external collaborator. A connection answers the query for a
  ticket number and the two bounds of the date (the cursor, \<^verbatim>\<open>execute\<close> and
  \<^verbatim>\<open>fetchall\<close>) with an exception or the rows, and its \<^verbatim>\<open>close\<close> may raise.
\<close>

record connection =
  fetch_rows :: "string \<Rightarrow> string \<Rightarrow> string \<Rightarrow> exn + entry list"
  close :: "exn + unit"

text \<open>
  Lines 93 to 97: the date of a row, when it is there and true, is replaced by its
  \<^verbatim>\<open>isoformat()\<close>, a method that only a date has.
\<close>

definition format_date :: "entry \<Rightarrow> exn + entry" where
  "format_date entry =
     (case map_of entry ''dt__data'' of
        None \<Rightarrow> Inr entry
      | Some v \<Rightarrow>
          if truthy v then
            (case v of
               PDateTime t \<Rightarrow> Inr (dict_set entry ''dt__data'' (PStr t))
             | _ \<Rightarrow> Inl (no_attribute v ''isoformat''))
          else Inr entry)"

text \<open>
  The loop over the rows. The call of \<^verbatim>\<open>format_ticket_data\<close> stands inside the loop, so
  it runs on the whole list after every row appended.
\<close>

fun entries_loop ::
  "html_parser \<Rightarrow> re_sub \<Rightarrow> string \<Rightarrow> entry list \<Rightarrow> entry list \<Rightarrow> exn + entry list" where
  "entries_loop parse re_sub bullet [] ticket_entries = Inr ticket_entries"
| "entries_loop parse re_sub bullet (row # rows) ticket_entries =
     (case format_date row of
        Inl e \<Rightarrow> Inl e
      | Inr entry \<Rightarrow>
          (case format_ticket_entries parse re_sub bullet
                  (ticket_entries @ [convert_decimals_items entry]) of
             Inl e \<Rightarrow> Inl e
           | Inr formatted \<Rightarrow> entries_loop parse re_sub bullet rows formatted))"

definition empty_id_msg :: string where
  "empty_id_msg = ''L'' @ [CHR 0x27] @ ''ID del ticket non pu'' @ [CHR 0xF2] @ '' essere vuoto''"

definition not_found_msg :: "string \<Rightarrow> int \<Rightarrow> string" where
  "not_found_msg ticket_number year =
     ''Ticket '' @ ticket_number @ '' non trovato per l'' @ [CHR 0x27] @ ''anno '' @ str_int year"

text \<open>The inner \<^verbatim>\<open>try\<close> block, lines 50 to 118.\<close>

definition query_ticket ::
  "html_parser \<Rightarrow> re_sub \<Rightarrow> string \<Rightarrow> connection \<Rightarrow> string \<Rightarrow> string \<Rightarrow> int \<Rightarrow> exn + payload" where
  "query_ticket parse re_sub bullet conn ticket_id ticket_number year =
     (let start_date = str_int year @ ''-01-01'';
          end_date = str_int (year + 1) @ ''-01-01''
      in (case fetch_rows conn ticket_number start_date end_date of
            Inl e \<Rightarrow> Inl e
          | Inr rows \<Rightarrow>
              if rows = [] then
                json_dumps (PDict [(''status'', PStr ''error''),
                                   (''ticket_id'', PStr ticket_id),
                                   (''parsed_number'', PStr ticket_number),
                                   (''parsed_year'', PInt year),
                                   (''error'', PStr (not_found_msg ticket_number year)),
                                   (''error_code'', PStr ''TICKET_NOT_FOUND'')])
              else
                (case entries_loop parse re_sub bullet rows [] of
                   Inl e \<Rightarrow> Inl e
                 | Inr ticket_entries \<Rightarrow>
                     json_dumps (convert_decimals
                       (PDict [(''status'', PStr ''success''),
                               (''ticket_id'', PStr ticket_id),
                               (''parsed_number'', PStr ticket_number),
                               (''parsed_year'', PInt year),
                               (''entries_count'', PInt (int (length ticket_entries))),
                               (''ticket_data'', PList (map PDict ticket_entries))])))))"

text \<open>
  The outer \<^verbatim>\<open>try\<close> block. The \<^verbatim>\<open>finally\<close> clause closes the connection on every way
  out of the inner block; an exception of \<^verbatim>\<open>close\<close> replaces the outcome of the block.
\<close>

definition get_ticket_body ::
  "html_parser \<Rightarrow> re_sub \<Rightarrow> string \<Rightarrow> int \<Rightarrow> (exn + connection) \<Rightarrow> string \<Rightarrow> exn + payload" where
  "get_ticket_body parse re_sub bullet current_year get_postgres_connection ticket_id =
     (if ticket_id = [] \<or> py_strip ticket_id = [] then Inl (Exn ''ValueError'' empty_id_msg)
      else (case parse_ticket_id current_year (py_strip ticket_id) of
              Inl e \<Rightarrow> Inl e
            | Inr (ticket_number, year) \<Rightarrow>
                (case get_postgres_connection of
                   Inl e \<Rightarrow> Inl e
                 | Inr conn \<Rightarrow>
                     (let outcome = query_ticket parse re_sub bullet conn ticket_id ticket_number year
                      in (case close conn of Inl e \<Rightarrow> Inl e | Inr u \<Rightarrow> outcome)))))"

text \<open>
  The whole function: what the outer \<^verbatim>\<open>try\<close> block returns, or the error response that
  the \<^verbatim>\<open>except Exception\<close> handler builds from the exception.
\<close>

definition get_ticket_by_id ::
  "html_parser \<Rightarrow> re_sub \<Rightarrow> string \<Rightarrow> int \<Rightarrow> (exn + connection) \<Rightarrow> string \<Rightarrow> exn + payload" where
  "get_ticket_by_id parse re_sub bullet current_year get_postgres_connection ticket_id =
     (case get_ticket_body parse re_sub bullet current_year get_postgres_connection ticket_id of
        Inr response \<Rightarrow> Inr response
      | Inl e \<Rightarrow>
          json_dumps (PDict [(''status'', PStr ''error''),
                             (''ticket_id'', PStr ticket_id),
                             (''error'', PStr (exn_msg e)),
                             (''error_type'', PStr (exn_type e))]))"

text \<open>A connection that answers with given rows, for evaluating examples.\<close>

definition example_connection :: "entry list \<Rightarrow> connection" where
  "example_connection rows =
     \<lparr>fetch_rows = (\<lambda>ticket_number start_date end_date. Inr rows), close = Inr ()\<rparr>"

section \<open>Ingestion (PY\_Scripts/clean\_html.py, process\_tickets)\<close>

definition url_pattern :: string where
  "url_pattern = ''https?://[^'' @ backslash @ ''s]+''"

definition email_pattern :: string where
  "email_pattern =
     backslash @ ''b[A-Za-z0-9._%+-]+@[A-Za-z0-9.-]+'' @ backslash @ ''.[A-Z|a-z]{2,}'' @
     backslash @ ''b''"

definition phone_pattern :: string where
  "phone_pattern =
     ''('' @ backslash @ ''+39'' @ backslash @ ''s*)?('' @ backslash @ ''d{3})'' @
     backslash @ ''s*('' @ backslash @ ''d{3})'' @ backslash @ ''s*('' @ backslash @ ''d{4})''"

definition phone_repl :: string where
  "phone_repl = ''+39 '' @ backslash @ ''2 '' @ backslash @ ''3 '' @ backslash @ ''4''"

definition date_pattern :: string where
  "date_pattern =
     ''('' @ backslash @ ''d{1,2})[/.-]('' @ backslash @ ''d{1,2})[/.-]('' @ backslash @ ''d{4})''"

definition date_repl :: string where
  "date_repl = backslash @ ''1/'' @ backslash @ ''2/'' @ backslash @ ''3''"

definition preprocess_text :: "re_sub \<Rightarrow> string \<Rightarrow> string" where
  "preprocess_text re_sub text0 =
     (if text0 = [] then []
      else (let text = re_sub [] url_pattern ''[URL]'' text0;
                text = re_sub [] email_pattern ''[EMAIL]'' text;
                text = re_sub [] phone_pattern phone_repl text;
                text = re_sub [] date_pattern date_repl text
            in py_strip (collapse_ws text)))"

text \<open>
  Lines 132 to 139. \<open>iso_year s\<close> is \<^verbatim>\<open>datetime.fromisoformat(s).year\<close>, or the exception
  that \<^verbatim>\<open>fromisoformat\<close> raises; a value that is not a string has no \<^verbatim>\<open>replace\<close>. The
  bare \<^verbatim>\<open>except\<close> swallows either failure.
\<close>

definition year_of_date :: "(string \<Rightarrow> exn + int) \<Rightarrow> pyval \<Rightarrow> string" where
  "year_of_date iso_year date_str =
     (if truthy date_str then
        (case date_str of
           PStr s \<Rightarrow>
             (case iso_year (replace_all ''Z'' ''+00:00'' s) of
                Inr y \<Rightarrow> str_int y
              | Inl e \<Rightarrow> ''2024'')
         | _ \<Rightarrow> ''2024'')
      else ''2024'')"

text \<open>
  \<^verbatim>\<open>date_str.split('T')[0] if 'T' in date_str else date_str\<close>: the membership test raises
  on a value that is not a container, and only a string has \<^verbatim>\<open>split\<close>.
\<close>

definition date_only :: "pyval \<Rightarrow> exn + pyval" where
  "date_only date_str =
     (case date_str of
        PStr s \<Rightarrow>
          if CHR ''T'' \<in> set s then Inr (PStr (takeWhile (\<lambda>c. c \<noteq> CHR ''T'') s))
          else Inr date_str
      | PList xs \<Rightarrow>
          if PStr ''T'' \<in> set xs then Inl (no_attribute date_str ''split'') else Inr date_str
      | PDict kvs \<Rightarrow>
          if ''T'' \<in> set (map fst kvs) then Inl (no_attribute date_str ''split'')
          else Inr date_str
      | _ \<Rightarrow>
          Inl (Exn ''TypeError''
                 (''argument of type '' @ [CHR 0x27] @ type_name date_str @ [CHR 0x27] @
                  '' is not iterable'')))"

text \<open>
  \<^verbatim>\<open>f"{v}"\<close>: the text of a value. \<open>str_other\<close> is \<^verbatim>\<open>str\<close> on the values whose text is
  not written out here.
\<close>

definition str_value :: "(pyval \<Rightarrow> string) \<Rightarrow> pyval \<Rightarrow> string" where
  "str_value str_other v =
     (case v of
        PStr s \<Rightarrow> s
      | PInt i \<Rightarrow> str_int i
      | PNone \<Rightarrow> ''None''
      | PBool b \<Rightarrow> (if b then ''True'' else ''False'')
      | _ \<Rightarrow> str_other v)"

text \<open>The body of the \<^verbatim>\<open>try\<close> block of the loop, lines 119 to 157: the document.\<close>

definition process_ticket ::
  "html_parser \<Rightarrow> re_sub \<Rightarrow> (string \<Rightarrow> exn + int) \<Rightarrow> (pyval \<Rightarrow> string) \<Rightarrow> pyval \<Rightarrow> exn + pyval" where
  "process_ticket parse re_sub iso_year str_other ticket =
     (case ticket of
        PDict record_fields \<Rightarrow>
          (let ttnumtic = dict_get record_fields ''ttnumtic'' (PStr []);
               title = dict_get record_fields ''ttshotxt'' (PStr []);
               company = dict_get record_fields ''cotitle'' (PStr []);
               html_content = dict_get record_fields ''dt_testo'' (PStr []);
               date_str = dict_get record_fields ''dt__data'' (PStr [])
           in (case clean_html_content_lenient parse html_content of
                 Inl e \<Rightarrow> Inl e
               | Inr clean_text \<Rightarrow>
                   (let processed_text = preprocess_text re_sub clean_text;
                        year = year_of_date iso_year date_str;
                        ticket_id = str_value str_other ttnumtic @ ''/SPC-'' @ year
                    in (case date_only date_str of
                          Inl e \<Rightarrow> Inl e
                        | Inr date \<Rightarrow>
                            Inr (PDict [(''id'', PStr ticket_id),
                                        (''text'', PStr processed_text),
                                        (''metadata'',
                                         PDict [(''title'', title),
                                                (''company'', company),
                                                (''date'', date),
                                                (''year'', PStr year),
                                                (''original_id'', ttnumtic)])])))))
      | _ \<Rightarrow> Inl (no_attribute ticket ''get''))"

text \<open>
  The loop over the records, from index \<open>i\<close>: the documents appended to
  \<^verbatim>\<open>processed_documents\<close> and the lines printed. \<open>n_tickets\<close> is \<^verbatim>\<open>len(tickets)\<close>.
\<close>

function process_records ::
  "html_parser \<Rightarrow> re_sub \<Rightarrow> (string \<Rightarrow> exn + int) \<Rightarrow> (pyval \<Rightarrow> string) \<Rightarrow> nat \<Rightarrow> nat \<Rightarrow>
   pyval list \<Rightarrow> pyval list \<times> string list \<Rightarrow> pyval list \<times> string list" where
  "process_records parse re_sub iso_year str_other n_tickets i [] out = out"
| "process_records parse re_sub iso_year str_other n_tickets i (ticket # tickets) out =
     (case process_ticket parse re_sub iso_year str_other ticket of
        Inr document \<Rightarrow>
          process_records parse re_sub iso_year str_other n_tickets (i + 1) tickets
            (fst out @ [document],
             snd out @ (if (i + 1) mod 100 = 0
                        then [''Processati '' @ str_nat (i + 1) @ ''/'' @ str_nat n_tickets @ '' ticket...'']
                        else []))
      | Inl e \<Rightarrow>
          process_records parse re_sub iso_year str_other n_tickets (i + 1) tickets
            (fst out,
             snd out @ [''Errore nel processare ticket '' @ str_nat i @ '': '' @ exn_msg e]))"
  by pat_completeness auto
termination
  by (relation "measure (\<lambda>(parse, re_sub, iso_year, str_other, n_tickets, i, tickets, out).
                           length tickets)") auto

text \<open>A date parser for the examples: the year 2023 for one date, an error otherwise.\<close>

definition example_iso_year :: "string \<Rightarrow> exn + int" where
  "example_iso_year s =
     (if s = ''2023-05-06T10:00:00+00:00'' then Inr 2023
      else Inl (Exn ''ValueError'' (''Invalid isoformat string: '' @ s)))"

definition example_str_other :: "pyval \<Rightarrow> string" where
  "example_str_other v = ''?''"

section \<open>Whitespace normalisation, as the specification words it\<close>

text \<open>
  The words of a text: its maximal runs of characters that are not whitespace. A text
  normalised "modulo whitespace collapse" is its words joined by single spaces.
\<close>

function ws_words :: "string \<Rightarrow> string list" where
  "ws_words [] = []"
| "ws_words (c # cs) =
     (if is_space c then ws_words cs
      else takeWhile (\<lambda>x. \<not> is_space x) (c # cs) # ws_words (dropWhile (\<lambda>x. \<not> is_space x) cs))"
  by pat_completeness auto
termination
  by (relation "measure length") (auto simp: le_imp_less_Suc length_dropWhile_le)



section \<open>Properties of the identifier parser\<close>


















section \<open>Properties of the semantic search\<close>

lemma scalar_val_serialisable: "first_unserialisable (scalar_val v) = None"
  by (cases v) simp_all

lemma metadata_serialisable:
  "first_unserialisable_items (map (\<lambda>kv. (fst kv, scalar_val (snd kv))) md) = None"
  by (induction md) (simp_all add: scalar_val_serialisable)

lemma format_result_serialisable: "first_unserialisable_items (format_result i r) = None"
  by (cases r) (simp add: format_result_def Let_def scalar_val_serialisable metadata_serialisable)

lemma formatted_results_serialisable:
  "first_unserialisable_list (map (\<lambda>(i, r). PDict (format_result i r)) xs) = None"
  by (induction xs) (auto simp: format_result_serialisable)

lemma format_response_empty:
  "ids r = [] \<or> hd (ids r) = [] \<Longrightarrow>
   format_response q r =
     Inr (JsonText (PDict [(''status'', PStr ''success''), (''query'', PStr q),
                           (''results_count'', PInt 0), (''results'', PList []),
                           (''message'', PStr ''Nessun ticket trovato per la query specificata'')]))"
  by (simp add: format_response_def json_dumps_def)

lemma format_response_rows:
  assumes "ids r \<noteq> []" "hd (ids r) \<noteq> []"
    and "distances r = ds # dss" "metadatas r = ms # mss" "documents r = docs # docss"
  shows "format_response q r =
     Inr (JsonText (PDict
       [(''status'', PStr ''success''), (''query'', PStr q),
        (''results_count'', PInt (int (min (length (hd (ids r))) (min (length ds) (min (length ms) (length docs)))))),
        (''results'', PList (map (\<lambda>(i, r). PDict (format_result i r))
                         (enumerate 0 (zip (hd (ids r)) (zip ds (zip ms docs))))))]))"
  using assms
  by (simp add: format_response_def json_dumps_def first_item_def Let_def
      formatted_results_serialisable)

lemma format_response_shape:
  "format_response q r = Inr p \<Longrightarrow>
     \<exists>kvs. p = JsonText (PDict kvs) \<and> map_of kvs ''status'' = Some (PStr ''success'')"
  by (auto simp: format_response_def json_dumps_def Let_def
      split: if_splits sum.splits option.splits)

lemma search_body_shape:
  "search_body gc q n = (Inr p, ev) \<Longrightarrow>
     \<exists>kvs. p = JsonText (PDict kvs) \<and> map_of kvs ''status'' = Some (PStr ''success'')"
  by (auto simp: search_body_def split: if_splits sum.splits dest: format_response_shape)

lemma search_error_payload:
  "search_body gc q n = (Inl e, ev) \<Longrightarrow>
   search_similar_tickets gc q n =
     (Inr (JsonText (PDict [(''status'', PStr ''error''), (''query'', PStr q),
                            (''error'', PStr (exn_msg e)), (''error_type'', PStr (exn_type e))])), ev)"
  by (simp add: search_similar_tickets_def json_dumps_def)

lemma search_ok_payload:
  "search_body gc q n = (Inr p, ev) \<Longrightarrow> search_similar_tickets gc q n = (Inr p, ev)"
  by (simp add: search_similar_tickets_def)

lemma search_never_raises:
  "\<exists>kvs. fst (search_similar_tickets gc q n) = Inr (JsonText (PDict kvs)) \<and>
      (map_of kvs ''status'' = Some (PStr ''success'') \<or>
       map_of kvs ''status'' = Some (PStr ''error'') \<and> map_of kvs ''error'' \<noteq> None
         \<and> map_of kvs ''error_type'' \<noteq> None)"
proof (cases "search_body gc q n")
  case (Pair res ev)
  show ?thesis
  proof (cases res)
    case (Inl e)
    with Pair show ?thesis by (simp add: search_error_payload)
  next
    case (Inr p)
    with Pair search_body_shape[of gc q n p ev] show ?thesis
      by (auto simp: search_ok_payload)
  qed
qed

subsection \<open>Rounding\<close>










subsection \<open>The claims on search results\<close>

text \<open>
  Claim C8. For each of the four metadata fields the formatted result holds the value under
  the prefixed key \<open>metadata_<field>\<close> when the metadata map has that key, otherwise the
  value under the bare key, otherwise the string \<open>N/A\<close>; the prefixed key wins when both
  are present.
\<close>

theorem metadata_lookup_precedence:
  "field \<in> set [''title'', ''company'', ''date'', ''original_id''] \<Longrightarrow>
   map_of (format_result i (tid, d, md, doc)) field =
     Some (scalar_val (case map_of md (''metadata_'' @ field) of
                         Some v \<Rightarrow> v
                       | None \<Rightarrow> (case map_of md field of Some v \<Rightarrow> v | None \<Rightarrow> SStr ''N/A'')))"
  by (auto simp: format_result_def Let_def dict_get_def)

theorem metadata_lookup_precedence_witness:
  "''title'' \<in> set [''title'', ''company'', ''date'', ''original_id''] \<and>
   map_of (format_result 0 (''7/SPC-2024'', 0,
             [(''title'', SStr ''bare''), (''metadata_title'', SStr ''prefixed'')], ''testo''))
     ''title'' = Some (PStr ''prefixed'')"
  using metadata_lookup_precedence[of "''title''" 0 "''7/SPC-2024''" 0
          "[(''title'', SStr ''bare''), (''metadata_title'', SStr ''prefixed'')]" "''testo''"]
  by simp




text \<open>
  Claim C6. With an empty or whitespace-only query text, or with \<open>n_results\<close> outside
  \<open>[1, 20]\<close>, the call makes no access to the store and returns the error response of a
  \<open>ValueError\<close> (the spec's InvalidQuery). With valid input and a store whose result lists
  are aligned, the store is asked once and \<open>results_count\<close> is the number of results it
  returned.
\<close>

theorem search_validation_before_store:
  "(py_strip q = [] \<or> n < 1 \<or> 20 < n \<longrightarrow>
      (\<exists>msg. search_similar_tickets gc q n =
         (Inr (JsonText (PDict [(''status'', PStr ''error''), (''query'', PStr q),
                                (''error'', PStr msg), (''error_type'', PStr ''ValueError'')])),
          [])))
   \<and> (py_strip q \<noteq> [] \<and> 1 \<le> n \<and> n \<le> 20 \<and> gc = Inr coll \<and> coll [py_strip q] n = Inr r
        \<and> ids r = [ids0] \<and> distances r = [ds] \<and> metadatas r = [ms] \<and> documents r = [docs]
        \<and> length ds = length ids0 \<and> length ms = length ids0 \<and> length docs = length ids0 \<longrightarrow>
      (\<exists>kvs. search_similar_tickets gc q n =
                (Inr (JsonText (PDict kvs)), [GetCollection, Query [py_strip q] n])
         \<and> map_of kvs ''status'' = Some (PStr ''success'')
         \<and> map_of kvs ''results_count'' = Some (PInt (int (length ids0)))))"
proof (intro conjI impI)
  assume bad: "py_strip q = [] \<or> n < 1 \<or> 20 < n"
  then have "\<exists>msg. search_body gc q n = (Inl (Exn ''ValueError'' msg), [])"
    by (cases "q = [] \<or> py_strip q = []") (simp_all add: search_body_def)
  then obtain msg where "search_body gc q n = (Inl (Exn ''ValueError'' msg), [])" ..
  from search_error_payload[OF this]
  show "\<exists>msg. search_similar_tickets gc q n =
         (Inr (JsonText (PDict [(''status'', PStr ''error''), (''query'', PStr q),
                                (''error'', PStr msg), (''error_type'', PStr ''ValueError'')])),
          [])"
    by auto
next
  assume ok: "py_strip q \<noteq> [] \<and> 1 \<le> n \<and> n \<le> 20 \<and> gc = Inr coll \<and> coll [py_strip q] n = Inr r
        \<and> ids r = [ids0] \<and> distances r = [ds] \<and> metadatas r = [ms] \<and> documents r = [docs]
        \<and> length ds = length ids0 \<and> length ms = length ids0 \<and> length docs = length ids0"
  then have q: "q \<noteq> []" by (auto simp: py_strip_def)
  have body: "search_body gc q n =
                (format_response q r, [GetCollection, Query [py_strip q] n])"
    using ok q by (simp add: search_body_def)
  have "\<exists>kvs. format_response q r = Inr (JsonText (PDict kvs))
         \<and> map_of kvs ''status'' = Some (PStr ''success'')
         \<and> map_of kvs ''results_count'' = Some (PInt (int (length ids0)))"
  proof (cases "ids0 = []")
    case True
    then show ?thesis using ok format_response_empty[of r q] by simp
  next
    case False
    then show ?thesis
      using ok format_response_rows[of r ds "[]" ms "[]" docs "[]" q] by simp
  qed
  then obtain kvs where kvs: "format_response q r = Inr (JsonText (PDict kvs))"
     "map_of kvs ''status'' = Some (PStr ''success'')"
     "map_of kvs ''results_count'' = Some (PInt (int (length ids0)))" by blast
  from body kvs(1) have "search_similar_tickets gc q n =
        (Inr (JsonText (PDict kvs)), [GetCollection, Query [py_strip q] n])"
    by (simp add: search_ok_payload)
  with kvs show "\<exists>kvs. search_similar_tickets gc q n =
                (Inr (JsonText (PDict kvs)), [GetCollection, Query [py_strip q] n])
         \<and> map_of kvs ''status'' = Some (PStr ''success'')
         \<and> map_of kvs ''results_count'' = Some (PInt (int (length ids0)))" by blast
qed

theorem search_validation_before_store_witness:
  "search_similar_tickets (Inr example_collection) ''   '' 5 =
     (Inr (JsonText (PDict [(''status'', PStr ''error''), (''query'', PStr ''   ''),
                            (''error'', PStr empty_query_msg),
                            (''error_type'', PStr ''ValueError'')])), [])
   \<and> (\<exists>kvs. search_similar_tickets (Inr example_collection) ''stampa fattura'' 5 =
               (Inr (JsonText (PDict kvs)), [GetCollection, Query [''stampa fattura''] 5])
          \<and> map_of kvs ''results_count'' = Some (PInt 3))"
proof -
  have strip1: "py_strip ''   '' = []" and strip2: "py_strip ''stampa fattura'' = ''stampa fattura''"
    by (simp_all add: py_strip_def is_space_def)
  have a: "\<exists>msg. search_similar_tickets (Inr example_collection) ''   '' 5 =
         (Inr (JsonText (PDict [(''status'', PStr ''error''), (''query'', PStr ''   ''),
                                (''error'', PStr msg), (''error_type'', PStr ''ValueError'')])),
          [])"
    using search_validation_before_store[of "''   ''" 5 "Inr example_collection"] strip1 by simp
  have a': "search_similar_tickets (Inr example_collection) ''   '' 5 =
     (Inr (JsonText (PDict [(''status'', PStr ''error''), (''query'', PStr ''   ''),
                            (''error'', PStr empty_query_msg),
                            (''error_type'', PStr ''ValueError'')])), [])"
    using a by (simp add: search_similar_tickets_def search_body_def strip1 json_dumps_def)
  have b: "\<exists>kvs. search_similar_tickets (Inr example_collection) ''stampa fattura'' 5 =
               (Inr (JsonText (PDict kvs)), [GetCollection, Query [''stampa fattura''] 5])
          \<and> map_of kvs ''status'' = Some (PStr ''success'')
          \<and> map_of kvs ''results_count'' = Some (PInt (int (length [''3906/SPC-2024'', ''12/SPC-2023'', ''7/SPC-2024''])))"
    using search_validation_before_store[of "''stampa fattura''" 5 "Inr example_collection"
        example_collection example_result "[''3906/SPC-2024'', ''12/SPC-2023'', ''7/SPC-2024'']"
        "[0, 1 / 4, 1]"
        "[[(''title'', SStr ''Stampa fattura''), (''metadata_title'', SStr ''Fattura'')], [],
          [(''company'', SStr ''ACME'')]]"
        "[''errore in stampa'', ''listino prezzi'', ''referenza pari a 0'']"]
    unfolding strip2
    by (simp add: example_collection_def example_result_def)
  from a' b show ?thesis by auto
qed

section \<open>Properties of the HTML normalizers\<close>

subsection \<open>Whitespace\<close>





lemma collapse_ws_Nil_iff: "collapse_ws s = [] \<longleftrightarrow> s = []"
  by (cases s) auto

lemma hd_collapse_ws: "s \<noteq> [] \<Longrightarrow> \<not> is_space (hd s) \<Longrightarrow> hd (collapse_ws s) = hd s"
  by (cases s) auto










lemma ws_words_dropWhile: "ws_words (dropWhile is_space s) = ws_words s"
  by (induction s) auto





subsection \<open>The claims on the normalizers\<close>







lemmas dom_defs =
  clean_html_content_lenient_def soup_to_text_lenient_def parsed_as_def table_of_def tr_def td_def
  table_text_lenient_def row_text_lenient_def list_text_lenient_def list_items_def
  get_text_strip_def get_text_def soup_text_def is_named_def py_strip_def is_space_def
  List.map_filter_def Let_def

text \<open>
  Claim C4, as stated, fails: the lenient variant asks for two cells in the row, but only for
  one cell with text. A row of two cells of which one is empty contributes its one text, and
  the table becomes \<open>A.\<close>
\<close>

theorem lenient_table_row_counterexample:
  "row_text_lenient (Element ''tr'' [] [Element ''td'' [] [Text ''A''], Element ''td'' [] []])
     = Some ''A''
   \<and> clean_html_content_lenient
         (parsed_as [Element ''table'' []
                      [Element ''tr'' [] [Element ''td'' [] [Text ''A''], Element ''td'' [] []]]])
         (PStr ''<table><tr><td>A</td><td></td></tr></table>'')
       = Inr ''A.''"
  by (simp add: dom_defs)

text \<open>
  Claim C4, amended. In the lenient variant exactly the rows with at least two cells, of which
  at least one has text, contribute: the texts of the cells that have one, joined with
  \<open>: \<close>. The contributions are joined with \<open>. \<close> and a full stop is appended; a table
  without a contributing row is left in place. The table of the rows \<open>A, 1\<close> and
  \<open>B, 2\<close> yields \<open>A: 1. B: 2.\<close>
\<close>

theorem lenient_table_rows_amended:
  "row_text_lenient row =
     (if 2 \<le> length (find_all [''td'', ''th''] row)
         \<and> (\<exists>cell \<in> set (find_all [''td'', ''th''] row). get_text_strip cell \<noteq> [])
      then Some (join '': '' (filter (\<lambda>t. t \<noteq> [])
                   (map get_text_strip (find_all [''td'', ''th''] row))))
      else None)
   \<and> table_text_lenient table =
     (if \<exists>row \<in> set (find_all [''tr''] table). row_text_lenient row \<noteq> None
      then Some (join ''. '' (map the (filter (\<lambda>t. t \<noteq> None)
                   (map row_text_lenient (find_all [''tr''] table)))) @ ''.'')
      else None)
   \<and> clean_html_content_lenient (parsed_as [table_of [[''A'', ''1''], [''B'', ''2'']]])
         (PStr ''<table><tr><td>A</td><td>1</td></tr><tr><td>B</td><td>2</td></tr></table>'')
       = Inr ''A: 1. B: 2.''"
proof (intro conjI)
  show "row_text_lenient row =
     (if 2 \<le> length (find_all [''td'', ''th''] row)
         \<and> (\<exists>cell \<in> set (find_all [''td'', ''th''] row). get_text_strip cell \<noteq> [])
      then Some (join '': '' (filter (\<lambda>t. t \<noteq> [])
                   (map get_text_strip (find_all [''td'', ''th''] row))))
      else None)"
    by (auto simp: row_text_lenient_def Let_def filter_empty_conv)
next
  have mf: "List.map_filter row_text_lenient rows =
              map the (filter (\<lambda>t. t \<noteq> None) (map row_text_lenient rows))" for rows
    by (induction rows) (auto simp: List.map_filter_def)
  show "table_text_lenient table =
     (if \<exists>row \<in> set (find_all [''tr''] table). row_text_lenient row \<noteq> None
      then Some (join ''. '' (map the (filter (\<lambda>t. t \<noteq> None)
                   (map row_text_lenient (find_all [''tr''] table)))) @ ''.'')
      else None)"
    unfolding table_text_lenient_def Let_def mf
    by (auto simp: filter_empty_conv)
next
  show "clean_html_content_lenient (parsed_as [table_of [[''A'', ''1''], [''B'', ''2'']]])
         (PStr ''<table><tr><td>A</td><td>1</td></tr><tr><td>B</td><td>2</td></tr></table>'')
       = Inr ''A: 1. B: 2.''"
    by (simp add: dom_defs)
qed

theorem lenient_table_rows_amended_witness:
  "2 \<le> length (find_all [''td'', ''th''] (tr [''A'', ''1'']))
   \<and> (\<exists>cell \<in> set (find_all [''td'', ''th''] (tr [''A'', ''1''])). get_text_strip cell \<noteq> [])
   \<and> row_text_lenient (tr [''A'', ''1'']) = Some ''A: 1''
   \<and> table_text_lenient (table_of [[''A'', ''1''], [''B'', ''2'']]) = Some ''A: 1. B: 2.''"
  using lenient_table_rows_amended[of "tr [''A'', ''1'']" "table_of [[''A'', ''1''], [''B'', ''2'']]"]
  by (simp add: dom_defs)

text \<open>
  Claim C2, as stated, fails for the lenient variant: it has no \<^verbatim>\<open>try\<close>, so an exception
  of the parser leaves the function (its caller, the ingestion loop, catches it and skips
  the record).
\<close>

theorem lenient_normalizer_raises_counterexample:
  "clean_html_content_lenient rejecting_parser (PStr ''<![x y]>'')
     = Inl (Exn ''ParserRejectedMarkup'' rejected_markup_msg)"
  by (simp add: clean_html_content_lenient_def rejecting_parser_def)

text \<open>
  Claim C2, amended. On a string or \<^verbatim>\<open>None\<close> the display variant never raises: empty,
  whitespace-only and \<^verbatim>\<open>None\<close> input give the empty string, and when parsing fails the
  result is the input with its tags stripped by pattern, whitespace collapsed and the ends
  stripped. The lenient variant gives the empty string on empty and \<^verbatim>\<open>None\<close> input and
  the text of the soup when the parser returns one; it has no fallback, and an exception of
  the parser propagates.
\<close>

theorem normalizer_never_raises_amended:
  "clean_html_content_display parse re_sub bullet PNone = Inr []
   \<and> (py_strip html = [] \<longrightarrow>
        clean_html_content_display parse re_sub bullet (PStr html) = Inr [])
   \<and> (\<exists>text. clean_html_content_display parse re_sub bullet (PStr html) = Inr text)
   \<and> (py_strip html \<noteq> [] \<and> parse (PStr html) = Inl e \<longrightarrow>
        clean_html_content_display parse re_sub bullet (PStr html)
          = Inr (py_strip (collapse_ws (strip_tags html))))
   \<and> clean_html_content_lenient parse PNone = Inr []
   \<and> clean_html_content_lenient parse (PStr []) = Inr []
   \<and> (html \<noteq> [] \<and> parse (PStr html) = Inr soup \<longrightarrow>
        clean_html_content_lenient parse (PStr html) = Inr (soup_to_text_lenient soup))
   \<and> (html \<noteq> [] \<and> parse (PStr html) = Inl e \<longrightarrow>
        clean_html_content_lenient parse (PStr html) = Inl e)"
proof -
  have strip_nil: "py_strip [] = []" by (simp add: py_strip_def)
  have d1: "clean_html_content_display parse re_sub bullet PNone = Inr []"
    by (simp add: clean_html_content_display_def)
  have d2: "py_strip html = [] \<longrightarrow>
        clean_html_content_display parse re_sub bullet (PStr html) = Inr []"
    by (simp add: clean_html_content_display_def)
  have d3: "\<exists>text. clean_html_content_display parse re_sub bullet (PStr html) = Inr text"
    by (cases "parse (PStr html)") (simp_all add: clean_html_content_display_def)
  have d4: "py_strip html \<noteq> [] \<and> parse (PStr html) = Inl e \<longrightarrow>
        clean_html_content_display parse re_sub bullet (PStr html)
          = Inr (py_strip (collapse_ws (strip_tags html)))"
    using strip_nil by (auto simp: clean_html_content_display_def)
  have l1: "clean_html_content_lenient parse PNone = Inr []"
    "clean_html_content_lenient parse (PStr []) = Inr []"
    by (simp_all add: clean_html_content_lenient_def)
  have l2: "html \<noteq> [] \<and> parse (PStr html) = Inr soup \<longrightarrow>
        clean_html_content_lenient parse (PStr html) = Inr (soup_to_text_lenient soup)"
    by (simp add: clean_html_content_lenient_def)
  have l3: "html \<noteq> [] \<and> parse (PStr html) = Inl e \<longrightarrow>
        clean_html_content_lenient parse (PStr html) = Inl e"
    by (simp add: clean_html_content_lenient_def)
  from d1 d2 d3 d4 l1 l2 l3 show ?thesis by blast
qed

theorem normalizer_never_raises_amended_witness:
  "py_strip ''<p>ciao</p>  <![x y]> <b>x</b> '' \<noteq> []
   \<and> rejecting_parser (PStr ''<p>ciao</p>  <![x y]> <b>x</b> '')
       = Inl (Exn ''ParserRejectedMarkup'' rejected_markup_msg)
   \<and> clean_html_content_display rejecting_parser example_re_sub ''*'' (PStr ''<p>ciao</p>  <![x y]> <b>x</b> '')
       = Inr ''ciao x''
   \<and> py_strip ''   '' = []
   \<and> clean_html_content_display rejecting_parser example_re_sub ''*'' (PStr ''   '') = Inr []"
proof -
  have a: "py_strip ''<p>ciao</p>  <![x y]> <b>x</b> '' \<noteq> []" by (simp add: py_strip_def is_space_def)
  have b: "rejecting_parser (PStr ''<p>ciao</p>  <![x y]> <b>x</b> '')
       = Inl (Exn ''ParserRejectedMarkup'' rejected_markup_msg)"
    by (simp add: rejecting_parser_def)
  have c: "py_strip (collapse_ws (strip_tags ''<p>ciao</p>  <![x y]> <b>x</b> '')) = ''ciao x''"
    by (simp add: py_strip_def is_space_def)
  have d: "py_strip ''   '' = []" by (simp add: py_strip_def is_space_def)
  from normalizer_never_raises_amended[of rejecting_parser example_re_sub "''*''"
         "''<p>ciao</p>  <![x y]> <b>x</b> ''" "Exn ''ParserRejectedMarkup'' rejected_markup_msg"]
       normalizer_never_raises_amended[of rejecting_parser example_re_sub "''*''" "''   ''"]
       a b c d
  show ?thesis by simp
qed

section \<open>Properties of the formatting of rows\<close>

lemma map_of_dict_set:
  "map_of (dict_set e k v) k' = (if k' = k then Some v else map_of e k')"
  by (induction e k v rule: dict_set.induct) auto

lemma keys_dict_set:
  "map_of e k \<noteq> None \<Longrightarrow> map fst (dict_set e k v) = map fst e"
  by (induction e k v rule: dict_set.induct) (auto split: if_splits)

lemma display_total_on_strings:
  "\<exists>text. clean_html_content_display parse re_sub bullet (PStr html) = Inr text"
  by (cases "parse (PStr html)") (simp_all add: clean_html_content_display_def)

text \<open>One round of the loop appends a copy that differs from the original at most in the
  value of \<open>dt_testo\<close>.\<close>

lemma format_ticket_data_loop_step:
  assumes ok: "\<forall>v. map_of (h ! r) ''dt_testo'' = Some v \<longrightarrow> \<not> truthy v \<or> (\<exists>s. v = PStr s)"
  shows "\<exists>e'. format_ticket_data_loop parse re_sub bullet h (r # rest) acc
               = format_ticket_data_loop parse re_sub bullet (h @ [e']) rest (acc @ [length h])
             \<and> map fst e' = map fst (h ! r)
             \<and> (\<forall>k. k \<noteq> ''dt_testo'' \<longrightarrow> map_of e' k = map_of (h ! r) k)
             \<and> (case map_of (h ! r) ''dt_testo'' of
                   None \<Rightarrow> map_of e' ''dt_testo'' = None
                 | Some v \<Rightarrow>
                     if truthy v
                     then \<exists>t. clean_html_content_display parse re_sub bullet v = Inr t
                              \<and> map_of e' ''dt_testo'' = Some (PStr t)
                     else map_of e' ''dt_testo'' = Some v)"
proof (cases "map_of (h ! r) ''dt_testo''")
  case None
  then show ?thesis by (intro exI[of _ "h ! r"]) (simp add: Let_def)
next
  case (Some v)
  show ?thesis
  proof (cases "truthy v")
    case False
    with Some show ?thesis by (intro exI[of _ "h ! r"]) (simp add: Let_def)
  next
    case True
    with ok Some obtain s where v: "v = PStr s" by auto
    obtain cleaned where cleaned: "clean_html_content_display parse re_sub bullet (PStr s) = Inr cleaned"
      using display_total_on_strings by blast
    have upd: "(h @ [h ! r])[length h := dict_set (h ! r) ''dt_testo'' (PStr cleaned)]
                 = h @ [dict_set (h ! r) ''dt_testo'' (PStr cleaned)]"
      by simp
    have "format_ticket_data_loop parse re_sub bullet h (r # rest) acc
            = format_ticket_data_loop parse re_sub bullet
                (h @ [dict_set (h ! r) ''dt_testo'' (PStr cleaned)]) rest (acc @ [length h])"
      using Some True v cleaned upd by (simp add: Let_def)
    moreover have "map fst (dict_set (h ! r) ''dt_testo'' (PStr cleaned)) = map fst (h ! r)"
      using Some by (simp add: keys_dict_set)
    moreover have "\<forall>k. k \<noteq> ''dt_testo'' \<longrightarrow>
        map_of (dict_set (h ! r) ''dt_testo'' (PStr cleaned)) k = map_of (h ! r) k"
      by (simp add: map_of_dict_set)
    moreover have "map_of (dict_set (h ! r) ''dt_testo'' (PStr cleaned)) ''dt_testo''
                     = Some (PStr cleaned)"
      by (simp add: map_of_dict_set)
    ultimately show ?thesis
      using Some True v cleaned
      by (intro exI[of _ "dict_set (h ! r) ''dt_testo'' (PStr cleaned)"]) simp
  qed
qed

lemma format_ticket_data_loop_frame:
  assumes "\<forall>r\<in>set refs. r < length h"
    and "\<forall>r\<in>set refs. \<forall>v. map_of (h ! r) ''dt_testo'' = Some v \<longrightarrow>
           \<not> truthy v \<or> (\<exists>s. v = PStr s)"
  shows "\<exists>h'. format_ticket_data_loop parse re_sub bullet h refs acc
                = Inr (h', acc @ [length h..<length h + length refs])
            \<and> length h' = length h + length refs
            \<and> take (length h) h' = h
            \<and> (\<forall>i<length refs.
                  map fst (h' ! (length h + i)) = map fst (h ! (refs ! i))
                  \<and> (\<forall>k. k \<noteq> ''dt_testo'' \<longrightarrow>
                        map_of (h' ! (length h + i)) k = map_of (h ! (refs ! i)) k)
                  \<and> (case map_of (h ! (refs ! i)) ''dt_testo'' of
                        None \<Rightarrow> map_of (h' ! (length h + i)) ''dt_testo'' = None
                      | Some v \<Rightarrow>
                          if truthy v
                          then \<exists>t. clean_html_content_display parse re_sub bullet v = Inr t
                                 \<and> map_of (h' ! (length h + i)) ''dt_testo'' = Some (PStr t)
                          else map_of (h' ! (length h + i)) ''dt_testo'' = Some v))"
  using assms
proof (induction refs arbitrary: h acc)
  case Nil
  then show ?case by simp
next
  case (Cons r rest)
  have r: "r < length h" using Cons.prems(1) by simp
  have "\<forall>v. map_of (h ! r) ''dt_testo'' = Some v \<longrightarrow> \<not> truthy v \<or> (\<exists>s. v = PStr s)"
    using Cons.prems(2) by simp
  from format_ticket_data_loop_step[OF this, of parse re_sub bullet rest acc]
  obtain e' where step: "format_ticket_data_loop parse re_sub bullet h (r # rest) acc
               = format_ticket_data_loop parse re_sub bullet (h @ [e']) rest (acc @ [length h])"
    and keys: "map fst e' = map fst (h ! r)"
    and vals: "\<forall>k. k \<noteq> ''dt_testo'' \<longrightarrow> map_of e' k = map_of (h ! r) k"
    and body: "(case map_of (h ! r) ''dt_testo'' of
                   None \<Rightarrow> map_of e' ''dt_testo'' = None
                 | Some v \<Rightarrow>
                     if truthy v
                     then \<exists>t. clean_html_content_display parse re_sub bullet v = Inr t
                              \<and> map_of e' ''dt_testo'' = Some (PStr t)
                     else map_of e' ''dt_testo'' = Some v)"
    by blast
  let ?h2 = "h @ [e']"
  have old: "\<And>a. a < length h \<Longrightarrow> ?h2 ! a = h ! a" by (simp add: nth_append)
  have p1: "\<forall>r'\<in>set rest. r' < length ?h2" using Cons.prems(1) by auto
  have p2: "\<forall>r'\<in>set rest. \<forall>v. map_of (?h2 ! r') ''dt_testo'' = Some v \<longrightarrow>
              \<not> truthy v \<or> (\<exists>s. v = PStr s)"
    using Cons.prems old by simp
  from Cons.IH[OF p1 p2, of "acc @ [length h]"]
  obtain h' where res: "format_ticket_data_loop parse re_sub bullet ?h2 rest (acc @ [length h])
                = Inr (h', (acc @ [length h]) @ [length ?h2..<length ?h2 + length rest])"
    and len: "length h' = length ?h2 + length rest"
    and tk: "take (length ?h2) h' = ?h2"
    and rel: "\<forall>i<length rest.
                  map fst (h' ! (length ?h2 + i)) = map fst (?h2 ! (rest ! i))
                  \<and> (\<forall>k. k \<noteq> ''dt_testo'' \<longrightarrow>
                        map_of (h' ! (length ?h2 + i)) k = map_of (?h2 ! (rest ! i)) k)
                  \<and> (case map_of (?h2 ! (rest ! i)) ''dt_testo'' of
                        None \<Rightarrow> map_of (h' ! (length ?h2 + i)) ''dt_testo'' = None
                      | Some v \<Rightarrow>
                          if truthy v
                          then \<exists>t. clean_html_content_display parse re_sub bullet v = Inr t
                                 \<and> map_of (h' ! (length ?h2 + i)) ''dt_testo'' = Some (PStr t)
                          else map_of (h' ! (length ?h2 + i)) ''dt_testo'' = Some v)"
    by blast
  have out: "(acc @ [length h]) @ [length ?h2..<length ?h2 + length rest]
               = acc @ [length h..<length h + length (r # rest)]"
    using upt_conv_Cons[of "length h" "length h + length (r # rest)"] by simp
  have tk': "take (length h) h' = h"
  proof -
    have "take (length h) (take (length ?h2) h') = take (length h) h'" by (simp add: min_def)
    moreover have "take (length h) (take (length ?h2) h') = take (length h) ?h2"
      by (simp only: tk)
    ultimately show ?thesis by simp
  qed
  have new: "h' ! length h = e'"
  proof -
    have "h' ! length h = take (length ?h2) h' ! length h" by simp
    also have "\<dots> = ?h2 ! length h" by (simp only: tk)
    finally show ?thesis by simp
  qed
  have rel': "map fst (h' ! (length h + i)) = map fst (h ! ((r # rest) ! i))
        \<and> (\<forall>k. k \<noteq> ''dt_testo'' \<longrightarrow>
              map_of (h' ! (length h + i)) k = map_of (h ! ((r # rest) ! i)) k)
        \<and> (case map_of (h ! ((r # rest) ! i)) ''dt_testo'' of
              None \<Rightarrow> map_of (h' ! (length h + i)) ''dt_testo'' = None
            | Some v \<Rightarrow>
                if truthy v
                then \<exists>t. clean_html_content_display parse re_sub bullet v = Inr t
                       \<and> map_of (h' ! (length h + i)) ''dt_testo'' = Some (PStr t)
                else map_of (h' ! (length h + i)) ''dt_testo'' = Some v)"
    if "i < length (r # rest)" for i
  proof (cases i)
    case 0
    then have eq: "h' ! (length h + i) = e'" "(r # rest) ! i = r" using new by simp_all
    show ?thesis unfolding eq by (intro conjI keys vals body)
  next
    case (Suc j)
    then have j: "j < length rest" using that by simp
    then have "rest ! j < length h" using Cons.prems(1) by simp
    then have "?h2 ! (rest ! j) = h ! (rest ! j)" by (rule old)
    then have eq: "h ! ((r # rest) ! i) = ?h2 ! (rest ! j)" "length h + i = length ?h2 + j"
      using Suc by simp_all
    show ?thesis unfolding eq using rel j by blast
  qed
  show ?case
    using step res out len tk' rel' by (intro exI[of _ h']) simp
qed

text \<open>
  Claim C10. On rows whose \<open>dt_testo\<close>, when present, is a string or a false value (the
  body of a row is text or null), \<open>format_ticket_data\<close> returns as many references as it was
  given, in the same order; each is a new object, so no dictionary that existed before the
  call is changed; each copy has the keys of its original, in their order, and the value of
  the original under every key other than \<open>dt_testo\<close>; a true \<open>dt_testo\<close> is replaced by
  its cleaned text.
\<close>

theorem format_ticket_data_frame:
  "(\<forall>r\<in>set ticket_data. r < length h)
   \<and> (\<forall>r\<in>set ticket_data. \<forall>v. map_of (h ! r) ''dt_testo'' = Some v \<longrightarrow>
          \<not> truthy v \<or> (\<exists>s. v = PStr s)) \<Longrightarrow>
   \<exists>h' out. format_ticket_data parse re_sub bullet h ticket_data = Inr (h', out)
     \<and> length out = length ticket_data
     \<and> take (length h) h' = h
     \<and> distinct out
     \<and> (\<forall>i<length ticket_data.
           length h \<le> out ! i \<and> out ! i < length h'
           \<and> map fst (h' ! (out ! i)) = map fst (h ! (ticket_data ! i))
           \<and> (\<forall>k. k \<noteq> ''dt_testo'' \<longrightarrow>
                 map_of (h' ! (out ! i)) k = map_of (h ! (ticket_data ! i)) k)
           \<and> (case map_of (h ! (ticket_data ! i)) ''dt_testo'' of
                 None \<Rightarrow> map_of (h' ! (out ! i)) ''dt_testo'' = None
               | Some v \<Rightarrow>
                   if truthy v
                   then \<exists>t. clean_html_content_display parse re_sub bullet v = Inr t
                          \<and> map_of (h' ! (out ! i)) ''dt_testo'' = Some (PStr t)
                   else map_of (h' ! (out ! i)) ''dt_testo'' = Some v))"
proof -
  assume a: "(\<forall>r\<in>set ticket_data. r < length h)
   \<and> (\<forall>r\<in>set ticket_data. \<forall>v. map_of (h ! r) ''dt_testo'' = Some v \<longrightarrow>
          \<not> truthy v \<or> (\<exists>s. v = PStr s))"
  define out where "out = [length h..<length h + length ticket_data]"
  from a format_ticket_data_loop_frame[of ticket_data h parse re_sub bullet "[]"]
  obtain h' where res: "format_ticket_data parse re_sub bullet h ticket_data = Inr (h', out)"
    and len: "length h' = length h + length ticket_data"
    and tk: "take (length h) h' = h"
    and rel: "\<forall>i<length ticket_data.
                  map fst (h' ! (length h + i)) = map fst (h ! (ticket_data ! i))
                  \<and> (\<forall>k. k \<noteq> ''dt_testo'' \<longrightarrow>
                        map_of (h' ! (length h + i)) k = map_of (h ! (ticket_data ! i)) k)
                  \<and> (case map_of (h ! (ticket_data ! i)) ''dt_testo'' of
                        None \<Rightarrow> map_of (h' ! (length h + i)) ''dt_testo'' = None
                      | Some v \<Rightarrow>
                          if truthy v
                          then \<exists>t. clean_html_content_display parse re_sub bullet v = Inr t
                                 \<and> map_of (h' ! (length h + i)) ''dt_testo'' = Some (PStr t)
                          else map_of (h' ! (length h + i)) ''dt_testo'' = Some v)"
    unfolding format_ticket_data_def out_def by auto
  have l: "length out = length ticket_data" and d: "distinct out" by (simp_all add: out_def)
  have nth: "out ! i = length h + i" if "i < length ticket_data" for i
    using that by (simp add: out_def)
  have "length h \<le> out ! i \<and> out ! i < length h'
           \<and> map fst (h' ! (out ! i)) = map fst (h ! (ticket_data ! i))
           \<and> (\<forall>k. k \<noteq> ''dt_testo'' \<longrightarrow>
                 map_of (h' ! (out ! i)) k = map_of (h ! (ticket_data ! i)) k)
           \<and> (case map_of (h ! (ticket_data ! i)) ''dt_testo'' of
                 None \<Rightarrow> map_of (h' ! (out ! i)) ''dt_testo'' = None
               | Some v \<Rightarrow>
                   if truthy v
                   then \<exists>t. clean_html_content_display parse re_sub bullet v = Inr t
                          \<and> map_of (h' ! (out ! i)) ''dt_testo'' = Some (PStr t)
                   else map_of (h' ! (out ! i)) ''dt_testo'' = Some v)"
    if i: "i < length ticket_data" for i
    unfolding nth[OF i] using rel i len by simp
  with res l tk d show ?thesis by blast
qed

theorem format_ticket_data_frame_witness:
  "format_ticket_data (parsed_as [Element ''p'' [] [Text ''ciao'']]) example_re_sub ''*''
        [[(''ttnumtic'', PInt 3906), (''dt_testo'', PStr ''<p>ciao</p>'')],
         [(''ttnumtic'', PInt 3906), (''dt_testo'', PNone)]] [0, 1]
       = Inr ([[(''ttnumtic'', PInt 3906), (''dt_testo'', PStr ''<p>ciao</p>'')],
               [(''ttnumtic'', PInt 3906), (''dt_testo'', PNone)],
               [(''ttnumtic'', PInt 3906), (''dt_testo'', PStr ''ciao'')],
               [(''ttnumtic'', PInt 3906), (''dt_testo'', PNone)]], [2, 3])"
proof -
  have ev: "format_ticket_data (parsed_as [Element ''p'' [] [Text ''ciao'']]) example_re_sub ''*''
        [[(''ttnumtic'', PInt 3906), (''dt_testo'', PStr ''<p>ciao</p>'')],
         [(''ttnumtic'', PInt 3906), (''dt_testo'', PNone)]] [0, 1]
       = Inr ([[(''ttnumtic'', PInt 3906), (''dt_testo'', PStr ''<p>ciao</p>'')],
               [(''ttnumtic'', PInt 3906), (''dt_testo'', PNone)],
               [(''ttnumtic'', PInt 3906), (''dt_testo'', PStr ''ciao'')],
               [(''ttnumtic'', PInt 3906), (''dt_testo'', PNone)]], [2, 3])"
    by code_simp
  have hyp: "(\<forall>r\<in>set [0, 1::nat]. r < length [[(''ttnumtic'', PInt 3906), (''dt_testo'', PStr ''<p>ciao</p>'')],
                               [(''ttnumtic'', PInt 3906), (''dt_testo'', PNone)]])
     \<and> (\<forall>r\<in>set [0, 1::nat]. \<forall>v. map_of ([[(''ttnumtic'', PInt 3906), (''dt_testo'', PStr ''<p>ciao</p>'')],
                               [(''ttnumtic'', PInt 3906), (''dt_testo'', PNone)]] ! r) ''dt_testo'' = Some v \<longrightarrow>
          \<not> truthy v \<or> (\<exists>s. v = PStr s))"
    by simp
  from format_ticket_data_frame[OF hyp, of "parsed_as [Element ''p'' [] [Text ''ciao'']]" example_re_sub "''*''"] ev
  show ?thesis by simp
qed

section \<open>Properties of the tool operations\<close>

lemma json_dumps_shape: "json_dumps v = Inr p \<Longrightarrow> p = JsonText v"
  by (auto simp: json_dumps_def split: option.splits)

lemma json_dumps_strings:
  "json_dumps (PDict [(''status'', PStr a), (''ticket_id'', PStr b), (''error'', PStr c),
                      (''error_type'', PStr d)])
     = Inr (JsonText (PDict [(''status'', PStr a), (''ticket_id'', PStr b), (''error'', PStr c),
                             (''error_type'', PStr d)]))"
  by (simp add: json_dumps_def)

lemma query_ticket_shape:
  "query_ticket parse re_sub bullet conn ticket_id ticket_number year = Inr p \<Longrightarrow>
     \<exists>kvs. p = JsonText (PDict kvs)
       \<and> (map_of kvs ''status'' = Some (PStr ''success'')
          \<or> map_of kvs ''status'' = Some (PStr ''error'')
            \<and> map_of kvs ''error_code'' = Some (PStr ''TICKET_NOT_FOUND'')
            \<and> map_of kvs ''error'' \<noteq> None)"
  by (auto simp: query_ticket_def Let_def split: sum.splits if_splits dest!: json_dumps_shape)

lemma get_ticket_body_shape:
  "get_ticket_body parse re_sub bullet cy gc ticket_id = Inr p \<Longrightarrow>
     \<exists>kvs. p = JsonText (PDict kvs)
       \<and> (map_of kvs ''status'' = Some (PStr ''success'')
          \<or> map_of kvs ''status'' = Some (PStr ''error'')
            \<and> map_of kvs ''error_code'' = Some (PStr ''TICKET_NOT_FOUND'')
            \<and> map_of kvs ''error'' \<noteq> None)"
  by (auto simp: get_ticket_body_def Let_def split: sum.splits if_splits prod.splits
      dest: query_ticket_shape)

lemma get_ticket_error_payload:
  "get_ticket_body parse re_sub bullet cy gc ticket_id = Inl e \<Longrightarrow>
   get_ticket_by_id parse re_sub bullet cy gc ticket_id =
     Inr (JsonText (PDict [(''status'', PStr ''error''), (''ticket_id'', PStr ticket_id),
                           (''error'', PStr (exn_msg e)), (''error_type'', PStr (exn_type e))]))"
  by (simp add: get_ticket_by_id_def json_dumps_strings)

lemma get_ticket_ok_payload:
  "get_ticket_body parse re_sub bullet cy gc ticket_id = Inr p \<Longrightarrow>
   get_ticket_by_id parse re_sub bullet cy gc ticket_id = Inr p"
  by (simp add: get_ticket_by_id_def)

lemma get_ticket_never_raises:
  "\<exists>kvs. get_ticket_by_id parse re_sub bullet cy gc ticket_id = Inr (JsonText (PDict kvs))
      \<and> (map_of kvs ''status'' = Some (PStr ''success'')
         \<or> map_of kvs ''status'' = Some (PStr ''error'') \<and> map_of kvs ''error'' \<noteq> None)"
proof (cases "get_ticket_body parse re_sub bullet cy gc ticket_id")
  case (Inl e)
  then show ?thesis by (simp add: get_ticket_error_payload)
next
  case (Inr p)
  with get_ticket_body_shape[OF Inr] show ?thesis
    by (auto simp: get_ticket_ok_payload)
qed

lemma get_ticket_not_found:
  assumes "py_strip ticket_id \<noteq> []"
    and "parse_ticket_id cy (py_strip ticket_id) = Inr (ticket_number, year)"
    and "gc = Inr conn"
    and "fetch_rows conn ticket_number (str_int year @ ''-01-01'') (str_int (year + 1) @ ''-01-01'')
           = Inr []"
    and "close conn = Inr ()"
  shows "get_ticket_by_id parse re_sub bullet cy gc ticket_id =
           Inr (JsonText (PDict [(''status'', PStr ''error''),
                                 (''ticket_id'', PStr ticket_id),
                                 (''parsed_number'', PStr ticket_number),
                                 (''parsed_year'', PInt year),
                                 (''error'', PStr (not_found_msg ticket_number year)),
                                 (''error_code'', PStr ''TICKET_NOT_FOUND'')]))"
proof -
  have "ticket_id \<noteq> []" using assms(1) by (auto simp: py_strip_def)
  then show ?thesis
    using assms
    by (simp add: get_ticket_by_id_def get_ticket_body_def query_ticket_def Let_def json_dumps_def)
qed

text \<open>
  Claim C3. Whatever the stores and the libraries do, \<open>get_ticket_by_id\<close> and
  \<open>search_similar_tickets\<close> return the text of a JSON object and raise nothing: an
  exception inside the \<^verbatim>\<open>try\<close> block becomes the error object with its message and its
  type, and a query that matches no row gives the error object with the code
  \<open>TICKET_NOT_FOUND\<close>.
\<close>

theorem tool_operations_never_raise:
  "(\<exists>kvs. get_ticket_by_id parse re_sub bullet cy gc ticket_id = Inr (JsonText (PDict kvs))
      \<and> (map_of kvs ''status'' = Some (PStr ''success'')
         \<or> map_of kvs ''status'' = Some (PStr ''error'') \<and> map_of kvs ''error'' \<noteq> None))
   \<and> (get_ticket_body parse re_sub bullet cy gc ticket_id = Inl e \<longrightarrow>
        get_ticket_by_id parse re_sub bullet cy gc ticket_id =
          Inr (JsonText (PDict [(''status'', PStr ''error''), (''ticket_id'', PStr ticket_id),
                                (''error'', PStr (exn_msg e)),
                                (''error_type'', PStr (exn_type e))])))
   \<and> (py_strip ticket_id \<noteq> []
        \<and> parse_ticket_id cy (py_strip ticket_id) = Inr (ticket_number, year)
        \<and> gc = Inr conn
        \<and> fetch_rows conn ticket_number (str_int year @ ''-01-01'')
             (str_int (year + 1) @ ''-01-01'') = Inr []
        \<and> close conn = Inr () \<longrightarrow>
        get_ticket_by_id parse re_sub bullet cy gc ticket_id =
          Inr (JsonText (PDict [(''status'', PStr ''error''),
                                (''ticket_id'', PStr ticket_id),
                                (''parsed_number'', PStr ticket_number),
                                (''parsed_year'', PInt year),
                                (''error'', PStr (not_found_msg ticket_number year)),
                                (''error_code'', PStr ''TICKET_NOT_FOUND'')])))
   \<and> (\<exists>kvs. fst (search_similar_tickets get_collection query_text n_results)
               = Inr (JsonText (PDict kvs))
      \<and> (map_of kvs ''status'' = Some (PStr ''success'')
         \<or> map_of kvs ''status'' = Some (PStr ''error'') \<and> map_of kvs ''error'' \<noteq> None
           \<and> map_of kvs ''error_type'' \<noteq> None))
   \<and> (search_body get_collection query_text n_results = (Inl e', events) \<longrightarrow>
        search_similar_tickets get_collection query_text n_results =
          (Inr (JsonText (PDict [(''status'', PStr ''error''), (''query'', PStr query_text),
                                 (''error'', PStr (exn_msg e')),
                                 (''error_type'', PStr (exn_type e'))])), events))"
  using get_ticket_never_raises[of parse re_sub bullet cy gc ticket_id]
    get_ticket_error_payload[of parse re_sub bullet cy gc ticket_id e]
    get_ticket_not_found[of ticket_id cy ticket_number year gc conn parse re_sub bullet]
    search_never_raises[of get_collection query_text n_results]
    search_error_payload[of get_collection query_text n_results e' events]
  by blast


theorem tool_operations_never_raise_witness:
  "get_ticket_body (parsed_as []) example_re_sub ''*'' 2026 (Inl (Exn ''OperationalError'' ''connection refused'')) ''3906''
     = Inl (Exn ''OperationalError'' ''connection refused'')
   \<and> get_ticket_by_id (parsed_as []) example_re_sub ''*'' 2026
        (Inl (Exn ''OperationalError'' ''connection refused'')) ''3906''
       = Inr (JsonText (PDict [(''status'', PStr ''error''), (''ticket_id'', PStr ''3906''),
                               (''error'', PStr ''connection refused''),
                               (''error_type'', PStr ''OperationalError'')]))
   \<and> get_ticket_by_id (parsed_as []) example_re_sub ''*'' 2026 (Inr (example_connection [])) ''3906''
       = Inr (JsonText (PDict [(''status'', PStr ''error''),
                               (''ticket_id'', PStr ''3906''),
                               (''parsed_number'', PStr ''3906''),
                               (''parsed_year'', PInt 2026),
                               (''error'', PStr (not_found_msg ''3906'' 2026)),
                               (''error_code'', PStr ''TICKET_NOT_FOUND'')]))
   \<and> search_similar_tickets (Inl (Exn ''ValueError'' ''Collection tickets_support does not exist.'')) ''stampa'' 5
       = (Inr (JsonText (PDict [(''status'', PStr ''error''), (''query'', PStr ''stampa''),
                                (''error'', PStr ''Collection tickets_support does not exist.''),
                                (''error_type'', PStr ''ValueError'')])), [GetCollection])"
proof -
  have a: "get_ticket_body (parsed_as []) example_re_sub ''*'' 2026
             (Inl (Exn ''OperationalError'' ''connection refused'')) ''3906''
           = Inl (Exn ''OperationalError'' ''connection refused'')"
    by code_simp
  have b1: "py_strip ''3906'' \<noteq> []" by code_simp
  have b2: "parse_ticket_id 2026 (py_strip ''3906'') = Inr (''3906'', 2026)" by code_simp
  have b3: "fetch_rows (example_connection []) ''3906'' (str_int 2026 @ ''-01-01'')
              (str_int (2026 + 1) @ ''-01-01'') = Inr []"
    "close (example_connection []) = Inr ()"
    by (simp_all add: example_connection_def)
  have c: "search_body (Inl (Exn ''ValueError'' ''Collection tickets_support does not exist.'')) ''stampa'' 5
             = (Inl (Exn ''ValueError'' ''Collection tickets_support does not exist.''), [GetCollection])"
    by code_simp
  from tool_operations_never_raise[of "parsed_as []" example_re_sub "''*''" 2026
        "Inl (Exn ''OperationalError'' ''connection refused'')" "''3906''"
        "Exn ''OperationalError'' ''connection refused''" _ _ _
        "Inl (Exn ''ValueError'' ''Collection tickets_support does not exist.'')" "''stampa''" 5
        "Exn ''ValueError'' ''Collection tickets_support does not exist.''" "[GetCollection]"]
       tool_operations_never_raise[of "parsed_as []" example_re_sub "''*''" 2026
        "Inr (example_connection [])" "''3906''" _ "''3906''" 2026 "example_connection []"]
       a b1 b2 b3 c
  show ?thesis by simp
qed

section \<open>Properties of the ingestion\<close>

lemma process_ticket_id:
  "process_ticket parse re_sub iso_year str_other ticket = Inr document \<Longrightarrow>
   \<exists>record_fields kvs. ticket = PDict record_fields \<and> document = PDict kvs
     \<and> map_of kvs ''id'' =
         Some (PStr (str_value str_other (dict_get record_fields ''ttnumtic'' (PStr [])) @ ''/SPC-'' @
                     year_of_date iso_year (dict_get record_fields ''dt__data'' (PStr []))))"
  by (cases ticket) (auto simp: process_ticket_def Let_def split: sum.splits)

lemma year_of_date_cases:
  "year_of_date iso_year (PStr s) =
     (if s = [] then ''2024''
      else (case iso_year (replace_all ''Z'' ''+00:00'' s) of
              Inr y \<Rightarrow> str_int y
            | Inl e \<Rightarrow> ''2024''))"
  by (simp add: year_of_date_def)

lemma year_of_date_missing:
  "map_of record_fields ''dt__data'' = None \<Longrightarrow>
   year_of_date iso_year (dict_get record_fields ''dt__data'' (PStr [])) = ''2024''"
  by (simp add: dict_get_def year_of_date_def)

lemma process_records_documents:
  "fst (process_records parse re_sub iso_year str_other n i tickets out) =
     fst out @ concat (map (\<lambda>t. case process_ticket parse re_sub iso_year str_other t of
                                  Inr document \<Rightarrow> [document] | Inl e \<Rightarrow> []) tickets)"
  by (induction tickets arbitrary: i out) (auto split: sum.splits)

lemma process_records_log_grows:
  "set (snd out) \<subseteq> set (snd (process_records parse re_sub iso_year str_other n i tickets out))"
proof (induction tickets arbitrary: i out)
  case Nil
  show ?case by simp
next
  case (Cons t ts)
  show ?case
  proof (cases "process_ticket parse re_sub iso_year str_other t")
    case (Inl e)
    let ?out = "(fst out, snd out @ [''Errore nel processare ticket '' @ str_nat i @ '': '' @ exn_msg e])"
    have "set (snd ?out) \<subseteq> set (snd (process_records parse re_sub iso_year str_other n (i + 1) ts ?out))"
      by (rule Cons.IH)
    with Inl show ?thesis by auto
  next
    case (Inr d)
    let ?out = "(fst out @ [d],
             snd out @ (if (i + 1) mod 100 = 0
                        then [''Processati '' @ str_nat (i + 1) @ ''/'' @ str_nat n @ '' ticket...'']
                        else []))"
    have "set (snd ?out) \<subseteq> set (snd (process_records parse re_sub iso_year str_other n (i + 1) ts ?out))"
      by (rule Cons.IH)
    with Inr show ?thesis by auto
  qed
qed

lemma process_records_logged:
  "j < length tickets \<Longrightarrow>
   process_ticket parse re_sub iso_year str_other (tickets ! j) = Inl e \<Longrightarrow>
   (''Errore nel processare ticket '' @ str_nat (i + j) @ '': '' @ exn_msg e)
     \<in> set (snd (process_records parse re_sub iso_year str_other n i tickets out))"
proof (induction tickets arbitrary: i j out)
  case Nil
  then show ?case by simp
next
  case (Cons t ts)
  show ?case
  proof (cases j)
    case 0
    with Cons.prems have t: "process_ticket parse re_sub iso_year str_other t = Inl e" by simp
    let ?out = "(fst out, snd out @ [''Errore nel processare ticket '' @ str_nat i @ '': '' @ exn_msg e])"
    have "set (snd ?out) \<subseteq> set (snd (process_records parse re_sub iso_year str_other n (i + 1) ts ?out))"
      by (rule process_records_log_grows)
    with t 0 show ?thesis by auto
  next
    case (Suc k)
    with Cons.prems have k: "k < length ts"
      "process_ticket parse re_sub iso_year str_other (ts ! k) = Inl e" by simp_all
    have ij: "i + j = (i + 1) + k" using Suc by simp
    show ?thesis
    proof (cases "process_ticket parse re_sub iso_year str_other t")
      case (Inl e0)
      let ?out = "(fst out, snd out @ [''Errore nel processare ticket '' @ str_nat i @ '': '' @ exn_msg e0])"
      have "(''Errore nel processare ticket '' @ str_nat ((i + 1) + k) @ '': '' @ exn_msg e)
              \<in> set (snd (process_records parse re_sub iso_year str_other n (i + 1) ts ?out))"
        using k by (rule Cons.IH)
      then show ?thesis using Inl by (simp only: ij process_records.simps sum.case)
    next
      case (Inr d)
      let ?out = "(fst out @ [d],
             snd out @ (if (i + 1) mod 100 = 0
                        then [''Processati '' @ str_nat (i + 1) @ ''/'' @ str_nat n @ '' ticket...'']
                        else []))"
      have "(''Errore nel processare ticket '' @ str_nat ((i + 1) + k) @ '': '' @ exn_msg e)
              \<in> set (snd (process_records parse re_sub iso_year str_other n (i + 1) ts ?out))"
        using k by (rule Cons.IH)
      then show ?thesis using Inr by (simp only: ij process_records.simps sum.case)
    qed
  qed
qed

text \<open>
  Claim C7. Every document that the ingestion produces has the id
  \<open>{ttnumtic}/SPC-{year}\<close>, where the year is the year of the date parsed as ISO 8601 after
  \<open>Z\<close> is replaced by \<open>+00:00\<close>, and \<open>2024\<close> when the date is missing, empty or rejected
  by the date parser. The documents of a batch are those of the records whose processing does
  not raise, in order; a record whose processing raises adds a line to the output and the
  loop goes on.
\<close>

theorem ingestion_document_id:
  "(process_ticket parse re_sub iso_year str_other ticket = Inr document \<longrightarrow>
      (\<exists>record_fields kvs. ticket = PDict record_fields \<and> document = PDict kvs
         \<and> map_of kvs ''id'' =
             Some (PStr (str_value str_other (dict_get record_fields ''ttnumtic'' (PStr [])) @
                         ''/SPC-'' @
                         year_of_date iso_year (dict_get record_fields ''dt__data'' (PStr []))))))
   \<and> year_of_date iso_year (PStr s) =
       (if s = [] then ''2024''
        else (case iso_year (replace_all ''Z'' ''+00:00'' s) of
                Inr y \<Rightarrow> str_int y
              | Inl e \<Rightarrow> ''2024''))
   \<and> (map_of fields0 ''dt__data'' = None \<longrightarrow>
        year_of_date iso_year (dict_get fields0 ''dt__data'' (PStr [])) = ''2024'')
   \<and> fst (process_records parse re_sub iso_year str_other n i tickets out) =
       fst out @ concat (map (\<lambda>t. case process_ticket parse re_sub iso_year str_other t of
                                    Inr d \<Rightarrow> [d] | Inl e \<Rightarrow> []) tickets)
   \<and> (j < length tickets
        \<and> process_ticket parse re_sub iso_year str_other (tickets ! j) = Inl err \<longrightarrow>
        (''Errore nel processare ticket '' @ str_nat (i + j) @ '': '' @ exn_msg err)
          \<in> set (snd (process_records parse re_sub iso_year str_other n i tickets out)))"
  using process_ticket_id[of parse re_sub iso_year str_other ticket document]
    year_of_date_cases[of iso_year s]
    year_of_date_missing[of fields0 iso_year]
    process_records_documents[of parse re_sub iso_year str_other n i tickets out]
    process_records_logged[of j tickets parse re_sub iso_year str_other err i n out]
  by blast

theorem ingestion_document_id_witness:
  "process_records (parsed_as [Text ''testo  del ticket'']) example_re_sub example_iso_year
     example_str_other 3 0
     [PDict [(''ttnumtic'', PInt 3906), (''ttshotxt'', PStr ''Titolo''), (''dt_testo'', PStr ''x''),
             (''dt__data'', PStr ''2023-05-06T10:00:00Z'')],
      PInt 5,
      PDict [(''ttnumtic'', PStr ''7''), (''dt__data'', PStr ''ieri'')]] ([], [])
   = ([PDict [(''id'', PStr ''3906/SPC-2023''), (''text'', PStr ''testo del ticket''),
              (''metadata'', PDict [(''title'', PStr ''Titolo''), (''company'', PStr []),
                                   (''date'', PStr ''2023-05-06''), (''year'', PStr ''2023''),
                                   (''original_id'', PInt 3906)])],
       PDict [(''id'', PStr ''7/SPC-2024''), (''text'', PStr []),
              (''metadata'', PDict [(''title'', PStr []), (''company'', PStr []),
                                   (''date'', PStr ''ieri''), (''year'', PStr ''2024''),
                                   (''original_id'', PStr ''7'')])]],
      [''Errore nel processare ticket 1: '' @ exn_msg (no_attribute (PInt 5) ''get'')])
   \<and> process_ticket (parsed_as [Text ''testo  del ticket'']) example_re_sub example_iso_year
        example_str_other (PInt 5) = Inl (no_attribute (PInt 5) ''get'')"
proof -
  have ev: "process_records (parsed_as [Text ''testo  del ticket'']) example_re_sub example_iso_year
     example_str_other 3 0
     [PDict [(''ttnumtic'', PInt 3906), (''ttshotxt'', PStr ''Titolo''), (''dt_testo'', PStr ''x''),
             (''dt__data'', PStr ''2023-05-06T10:00:00Z'')],
      PInt 5,
      PDict [(''ttnumtic'', PStr ''7''), (''dt__data'', PStr ''ieri'')]] ([], [])
   = ([PDict [(''id'', PStr ''3906/SPC-2023''), (''text'', PStr ''testo del ticket''),
              (''metadata'', PDict [(''title'', PStr ''Titolo''), (''company'', PStr []),
                                   (''date'', PStr ''2023-05-06''), (''year'', PStr ''2023''),
                                   (''original_id'', PInt 3906)])],
       PDict [(''id'', PStr ''7/SPC-2024''), (''text'', PStr []),
              (''metadata'', PDict [(''title'', PStr []), (''company'', PStr []),
                                   (''date'', PStr ''ieri''), (''year'', PStr ''2024''),
                                   (''original_id'', PStr ''7'')])]],
      [''Errore nel processare ticket 1: '' @ exn_msg (no_attribute (PInt 5) ''get'')])"
    by code_simp
  have bad: "process_ticket (parsed_as [Text ''testo  del ticket'']) example_re_sub example_iso_year
        example_str_other (PInt 5) = Inl (no_attribute (PInt 5) ''get'')"
    by (simp add: process_ticket_def)
  from ingestion_document_id[of "parsed_as [Text ''testo  del ticket'']" example_re_sub
         example_iso_year example_str_other "PInt 5" _ _ _ 3 0
         "[PDict [(''ttnumtic'', PInt 3906), (''ttshotxt'', PStr ''Titolo''), (''dt_testo'', PStr ''x''),
             (''dt__data'', PStr ''2023-05-06T10:00:00Z'')],
      PInt 5,
      PDict [(''ttnumtic'', PStr ''7''), (''dt__data'', PStr ''ieri'')]]" "([], [])" 1
         "no_attribute (PInt 5) ''get''"] ev bad
  show ?thesis by simp
qed

end
